theory Spec2Isabelle
  imports Main
begin

section \<open>Strings\<close>

text \<open>
  Python strings are modelled as \<^typ>\<open>string\<close>: a character is a code point below 256
  (ASCII and the Latin-1 supplement). The string helpers below agree with Python on that
  range.
\<close>

definition join_str :: "string \<Rightarrow> string list \<Rightarrow> string" where
  \<comment> \<open>\<^verbatim>\<open>sep.join(xs)\<close>\<close>
  "join_str sep xs = (case xs of [] \<Rightarrow> [] | y # ys \<Rightarrow> foldl (\<lambda>acc s. acc @ sep @ s) y ys)"

definition upper_chars :: string where
  \<comment> \<open>the cased letters below 256 that \<^verbatim>\<open>str.lower()\<close> changes: A to Z, and U+00C0 to U+00DE
      without the multiplication sign U+00D7\<close>
  "upper_chars =
     ''ABCDEFGHIJKLMNOPQRSTUVWXYZ'' @
     [CHR 0xC0, CHR 0xC1, CHR 0xC2, CHR 0xC3, CHR 0xC4, CHR 0xC5, CHR 0xC6, CHR 0xC7, CHR
      0xC8, CHR 0xC9, CHR 0xCA, CHR 0xCB, CHR 0xCC, CHR 0xCD, CHR 0xCE, CHR 0xCF, CHR
      0xD0, CHR 0xD1, CHR 0xD2, CHR 0xD3, CHR 0xD4, CHR 0xD5, CHR 0xD6, CHR 0xD8, CHR
      0xD9, CHR 0xDA, CHR 0xDB, CHR 0xDC, CHR 0xDD, CHR 0xDE]"

definition lower_chars :: string where
  \<comment> \<open>their lower-case forms, 32 code points higher\<close>
  "lower_chars =
     ''abcdefghijklmnopqrstuvwxyz'' @
     [CHR 0xE0, CHR 0xE1, CHR 0xE2, CHR 0xE3, CHR 0xE4, CHR 0xE5, CHR 0xE6, CHR 0xE7, CHR
      0xE8, CHR 0xE9, CHR 0xEA, CHR 0xEB, CHR 0xEC, CHR 0xED, CHR 0xEE, CHR 0xEF, CHR
      0xF0, CHR 0xF1, CHR 0xF2, CHR 0xF3, CHR 0xF4, CHR 0xF5, CHR 0xF6, CHR 0xF8, CHR
      0xF9, CHR 0xFA, CHR 0xFB, CHR 0xFC, CHR 0xFD, CHR 0xFE]"

definition lower_char :: "char \<Rightarrow> char" where
  "lower_char c = (case map_of (zip upper_chars lower_chars) c of None \<Rightarrow> c | Some d \<Rightarrow> d)"

definition lower :: "string \<Rightarrow> string" where
  \<comment> \<open>\<^verbatim>\<open>str.lower()\<close>\<close>
  "lower s = map lower_char s"

definition is_space :: "char \<Rightarrow> bool" where
  \<comment> \<open>the characters below 256 for which \<^verbatim>\<open>str.isspace()\<close> holds, which are the ones
      \<^verbatim>\<open>str.strip()\<close> removes: the ASCII white space and separators, the next-line control
      U+0085 and the no-break space U+00A0\<close>
  "is_space c = (c \<in> set [CHR 0x09, CHR 0x0A, CHR 0x0B, CHR 0x0C, CHR 0x0D,
                            CHR 0x1C, CHR 0x1D, CHR 0x1E, CHR 0x1F, CHR 0x20,
                            CHR 0x85, CHR 0xA0])"

definition strip :: "string \<Rightarrow> string" where
  \<comment> \<open>\<^verbatim>\<open>str.strip()\<close>\<close>
  "strip s = rev (dropWhile is_space (rev (dropWhile is_space s)))"

definition digit :: "nat \<Rightarrow> char" where
  "digit n = ''0123456789'' ! n"

fun str_nat :: "nat \<Rightarrow> string" where
  "str_nat n = (if n < 10 then [digit n] else str_nat (n div 10) @ [digit (n mod 10)])"

declare str_nat.simps [simp del]

definition str_int :: "int \<Rightarrow> string" where
  \<comment> \<open>\<^verbatim>\<open>str(i)\<close> as an f-string renders an integer\<close>
  "str_int i = (if i < 0 then CHR ''-'' # str_nat (nat (- i)) else str_nat (nat i))"

definition rfind :: "char \<Rightarrow> string \<Rightarrow> nat option" where
  \<comment> \<open>\<^verbatim>\<open>s.rfind(c)\<close>, with \<open>None\<close> for Python's \<open>-1\<close>\<close>
  "rfind c s =
     (if c \<in> set s then Some (length s - 1 - length (takeWhile (\<lambda>x. x \<noteq> c) (rev s)))
      else None)"

section \<open>Paths\<close>

text \<open>
  A \<^verbatim>\<open>pathlib.Path\<close> is modelled by its \<^verbatim>\<open>parts\<close> tuple in the POSIX flavour: a list
  of components, the first of which is the anchor \<open>/\<close> when the path is absolute.
  Components never contain the separator.
\<close>

type_synonym path = "string list"

definition is_anchor :: "string \<Rightarrow> bool" where
  "is_anchor s = (case s of [] \<Rightarrow> False | c # _ \<Rightarrow> c = CHR ''/'')"

definition name :: "path \<Rightarrow> string" where
  \<comment> \<open>\<^verbatim>\<open>PurePath.name\<close>: the final component, empty for \<open>.\<close> and for the bare anchor\<close>
  "name p = (case rev p of [] \<Rightarrow> [] | c # _ \<Rightarrow> if is_anchor c then [] else c)"

definition suffix :: "path \<Rightarrow> string" where
  \<comment> \<open>\<^verbatim>\<open>PurePath.suffix\<close> (Python 3.9 to 3.13)\<close>
  "suffix p =
     (let n = name p in
      case rfind (CHR ''.'') n of
        None \<Rightarrow> []
      | Some i \<Rightarrow> if 0 < i \<and> i < length n - 1 then drop i n else [])"

definition stem :: "path \<Rightarrow> string" where
  \<comment> \<open>\<^verbatim>\<open>PurePath.stem\<close>\<close>
  "stem p =
     (let n = name p in
      case rfind (CHR ''.'') n of
        None \<Rightarrow> n
      | Some i \<Rightarrow> if 0 < i \<and> i < length n - 1 then take i n else n)"

definition parent :: "path \<Rightarrow> path" where
  \<comment> \<open>\<^verbatim>\<open>PurePath.parent\<close>: \<open>.\<close> and the bare anchor are their own parents\<close>
  "parent p = (if name p = [] then p else butlast p)"

definition joinpath :: "path \<Rightarrow> string \<Rightarrow> path" where
  \<comment> \<open>\<^verbatim>\<open>p / s\<close> for a string \<open>s\<close> that is a single component\<close>
  "joinpath p s = p @ [s]"

definition joinpaths :: "path \<Rightarrow> path \<Rightarrow> path" where
  \<comment> \<open>\<^verbatim>\<open>p / q\<close>: an absolute right operand replaces the left one\<close>
  "joinpaths p q = (case q of [] \<Rightarrow> p | c # _ \<Rightarrow> if is_anchor c then q else p @ q)"

definition str_path :: "path \<Rightarrow> string" where
  \<comment> \<open>\<^verbatim>\<open>str(p)\<close>\<close>
  "str_path p =
     (case p of
        [] \<Rightarrow> ''.''
      | c # cs \<Rightarrow> if is_anchor c then c @ join_str ''/'' cs else join_str ''/'' (c # cs))"

definition relative_to :: "path \<Rightarrow> path \<Rightarrow> path option" where
  \<comment> \<open>\<^verbatim>\<open>p.relative_to(base)\<close>; \<open>None\<close> stands for the \<^verbatim>\<open>ValueError\<close>\<close>
  "relative_to p base =
     (if take (length base) p = base then Some (drop (length base) p) else None)"

section \<open>Errors, the file system and the world\<close>

datatype error =
    FileNotFoundError string
  | RuntimeError string
  | ValueError string
  | FileExistsError path
  | NotADirectoryError path
  | IsADirectoryError path

definition str_error :: "error \<Rightarrow> string" where
  \<comment> \<open>\<^verbatim>\<open>str(e)\<close>, as the top-level handler prints it\<close>
  "str_error e =
     (case e of
        FileNotFoundError m \<Rightarrow> m
      | RuntimeError m \<Rightarrow> m
      | ValueError m \<Rightarrow> m
      | FileExistsError p \<Rightarrow> ''[Errno 17] File exists: '' @ [CHR 0x27] @ str_path p @ [CHR 0x27]
      | NotADirectoryError p \<Rightarrow>
          ''[Errno 20] Not a directory: '' @ [CHR 0x27] @ str_path p @ [CHR 0x27]
      | IsADirectoryError p \<Rightarrow>
          ''[Errno 21] Is a directory: '' @ [CHR 0x27] @ str_path p @ [CHR 0x27])"

datatype entry_kind = EDir | EFile

datatype node =
    Dir
  | File
  | ZipFile "(path \<times> entry_kind) list"

text \<open>
  The file system is an association list from paths to nodes, in directory-listing order.
  The current directory and the root always exist. \<open>ZipFile\<close> is a regular file whose
  content is an archive with the given members.
\<close>

type_synonym fs = "(path \<times> node) list"

definition lookup :: "fs \<Rightarrow> path \<Rightarrow> node option" where
  "lookup f p = (if name p = [] then Some Dir else map_of f p)"

definition exists_path :: "fs \<Rightarrow> path \<Rightarrow> bool" where
  \<comment> \<open>\<^verbatim>\<open>Path.exists()\<close>\<close>
  "exists_path f p = (lookup f p \<noteq> None)"

definition is_dir :: "fs \<Rightarrow> path \<Rightarrow> bool" where
  \<comment> \<open>\<^verbatim>\<open>Path.is_dir()\<close>\<close>
  "is_dir f p = (lookup f p = Some Dir)"

definition store :: "fs \<Rightarrow> path \<Rightarrow> node \<Rightarrow> fs" where
  \<comment> \<open>create the entry, or replace its content in place\<close>
  "store f p n = (if map_of f p = None then f @ [(p, n)] else map (\<lambda>(q, m). if q = p then (q, n) else (q, m)) f)"

record proc =
  returncode :: int
  stdout :: string
  stderr :: string

datatype event =
    Stdout string
  | Stderr string
  | Invoke "string list" proc fs

text \<open>
  The world the script runs in: the file system and the chronological log of what the
  script printed and which external commands it ran (with the completed process and the
  file system the command left behind).
\<close>

record world =
  fs :: fs
  log :: "event list"

text \<open>
  What the script cannot decide: \<^verbatim>\<open>shutil.which\<close>, the external programs (exit status,
  captured output and their effect on the file system), and the formatted current minute
  \<^verbatim>\<open>datetime.now().strftime("%Y%m%d_%H%M")\<close> as a function of how many events have
  happened so far.
\<close>

record env =
  which :: "string \<Rightarrow> string option"
  tool :: "string list \<Rightarrow> fs \<Rightarrow> proc \<times> fs"
  clock :: "nat \<Rightarrow> string"

section \<open>Computations that may raise\<close>

type_synonym 'a prog = "world \<Rightarrow> (error + 'a) \<times> world"

definition ret :: "'a \<Rightarrow> 'a prog" where
  "ret x = (\<lambda>w. (Inr x, w))"

definition throw :: "error \<Rightarrow> 'a prog" where
  "throw e = (\<lambda>w. (Inl e, w))"

definition thn :: "'a prog \<Rightarrow> ('a \<Rightarrow> 'b prog) \<Rightarrow> 'b prog" where
  "thn m f = (\<lambda>w. case m w of (Inl e, w') \<Rightarrow> (Inl e, w') | (Inr x, w') \<Rightarrow> f x w')"

definition print :: "string \<Rightarrow> unit prog" where
  \<comment> \<open>\<^verbatim>\<open>print(s)\<close>\<close>
  "print s = (\<lambda>w. (Inr (), w\<lparr>log := log w @ [Stdout s]\<rparr>))"

definition eprint :: "string \<Rightarrow> unit prog" where
  \<comment> \<open>\<^verbatim>\<open>print(s, file=sys.stderr)\<close>\<close>
  "eprint s = (\<lambda>w. (Inr (), w\<lparr>log := log w @ [Stderr s]\<rparr>))"

definition path_exists :: "path \<Rightarrow> bool prog" where
  "path_exists p = (\<lambda>w. (Inr (exists_path (fs w) p), w))"

definition with_suffix :: "path \<Rightarrow> string \<Rightarrow> path prog" where
  \<comment> \<open>\<^verbatim>\<open>PurePath.with_suffix(s)\<close> for a valid suffix \<open>s\<close> (empty, or a dot and a name)\<close>
  "with_suffix p s =
     (if name p = [] then
        throw (ValueError (''PosixPath('' @ [CHR 0x27] @ str_path p @ [CHR 0x27]
                           @ '') has an empty name''))
      else ret (butlast p @ [take (length (name p) - length (suffix p)) (name p) @ s]))"


section \<open>Library operations on the world\<close>

definition blocked :: "fs \<Rightarrow> path \<Rightarrow> path option" where
  \<comment> \<open>where the system stops when it resolves the directory part of \<open>p\<close>: the first proper
      ancestor, from the top, that is not a directory\<close>
  "blocked f p = find (\<lambda>a. \<not> is_dir f a) (map (\<lambda>n. take n p) [0..<length p])"

definition os_mkdir :: "fs \<Rightarrow> path \<Rightarrow> error + fs" where
  \<comment> \<open>\<^verbatim>\<open>os.mkdir(p)\<close>: \<^verbatim>\<open>EEXIST\<close> for an existing entry; \<^verbatim>\<open>ENOTDIR\<close> when resolution stops at an
      ancestor that exists but is no directory, \<^verbatim>\<open>ENOENT\<close> when it stops at a missing one\<close>
  "os_mkdir f p =
     (if exists_path f p then Inl (FileExistsError p)
      else case blocked f p of
        None \<Rightarrow> Inr (f @ [(p, Dir)])
      | Some a \<Rightarrow>
          if exists_path f a then Inl (NotADirectoryError p)
          else Inl (FileNotFoundError (''[Errno 2] No such file or directory: '' @ [CHR 0x27]
                                       @ str_path p @ [CHR 0x27])))"

definition is_enoent :: "error + fs \<Rightarrow> bool" where
  "is_enoent r = (case r of Inl (FileNotFoundError _) \<Rightarrow> True | _ \<Rightarrow> False)"

definition mkdir_exist_ok :: "fs \<Rightarrow> path \<Rightarrow> error + fs" where
  \<comment> \<open>\<^verbatim>\<open>p.mkdir(parents=False, exist_ok=True)\<close>\<close>
  "mkdir_exist_ok f p =
     (case os_mkdir f p of
        Inr f' \<Rightarrow> Inr f'
      | Inl e \<Rightarrow> if is_enoent (Inl e) then Inl e
                 else if is_dir f p then Inr f else Inl e)"

function mkdir_parents :: "fs \<Rightarrow> path \<Rightarrow> error + fs" where
  \<comment> \<open>\<^verbatim>\<open>p.mkdir(parents=True, exist_ok=True)\<close>, as pathlib implements it\<close>
  "mkdir_parents f p =
     (if is_enoent (os_mkdir f p) then
        (if parent p = p then os_mkdir f p
         else (case mkdir_parents f (parent p) of
                 Inl e \<Rightarrow> Inl e
               | Inr f' \<Rightarrow> mkdir_exist_ok f' p))
      else mkdir_exist_ok f p)"
  by pat_completeness auto
termination
proof (relation "measure (\<lambda>(f, p). length p)")
  fix f :: fs and p :: path
  assume "parent p \<noteq> p"
  then have "p \<noteq> []" and "parent p = butlast p"
    by (auto simp: parent_def split: if_splits)
  then show "((f, parent p), (f, p)) \<in> measure (\<lambda>(f, p). length p)"
    by (cases p) auto
qed simp

declare mkdir_parents.simps [simp del]

definition ensure_dir :: "path \<Rightarrow> path prog" where
  "ensure_dir p =
     (\<lambda>w. case mkdir_parents (fs w) p of
             Inl e \<Rightarrow> (Inl e, w)
           | Inr f \<Rightarrow> (Inr p, w\<lparr>fs := f\<rparr>))"

definition subprocess_run :: "env \<Rightarrow> string list \<Rightarrow> proc prog" where
  \<comment> \<open>\<^verbatim>\<open>subprocess.run(cmd, capture_output=True, text=True)\<close>; the process is assumed to
      start, since its executable was located before\<close>
  "subprocess_run e cmd =
     (\<lambda>w. case tool e cmd (fs w) of
             (res, f) \<Rightarrow> (Inr res, w\<lparr>fs := f, log := log w @ [Invoke cmd res f]\<rparr>))"

definition timestamp_tag :: "env \<Rightarrow> string prog" where
  "timestamp_tag e = (\<lambda>w. (Inr (clock e (length (log w))), w))"

definition under :: "path \<Rightarrow> path \<Rightarrow> bool" where
  \<comment> \<open>\<open>p\<close> lies strictly below the directory \<open>src\<close>\<close>
  "under src p =
     (length src < length p \<and> take (length src) p = src \<and> \<not> is_anchor (p ! length src))"

definition rglob :: "fs \<Rightarrow> path \<Rightarrow> path list" where
  \<comment> \<open>\<^verbatim>\<open>src.rglob("*")\<close>: every entry below \<open>src\<close>, files and directories alike\<close>
  "rglob f src = (if is_dir f src then remdups (filter (under src) (map fst f)) else [])"

definition zip_open :: "path \<Rightarrow> unit prog" where
  \<comment> \<open>\<^verbatim>\<open>zipfile.ZipFile(p, "w")\<close> creates or truncates the file at once\<close>
  "zip_open p =
     (\<lambda>w. if \<not> exists_path (fs w) (parent p) then
             (Inl (FileNotFoundError (''[Errno 2] No such file or directory: '' @ [CHR 0x27]
                                      @ str_path p @ [CHR 0x27])), w)
           else if \<not> is_dir (fs w) (parent p) then (Inl (NotADirectoryError p), w)
           else if is_dir (fs w) p then (Inl (IsADirectoryError p), w)
           else (Inr (), w\<lparr>fs := store (fs w) p (ZipFile [])\<rparr>))"

definition zip_close :: "path \<Rightarrow> (path \<times> entry_kind) list \<Rightarrow> unit prog" where
  \<comment> \<open>leaving the \<^verbatim>\<open>with\<close> block writes the members collected so far\<close>
  "zip_close p entries = (\<lambda>w. (Inr (), w\<lparr>fs := store (fs w) p (ZipFile entries)\<rparr>))"

definition zf_write :: "fs \<Rightarrow> path \<Rightarrow> path \<Rightarrow> path \<times> entry_kind" where
  \<comment> \<open>\<^verbatim>\<open>zf.write(p, arcname=a)\<close>: a directory member for a directory, a file member otherwise\<close>
  "zf_write f p a = (a, if is_dir f p then EDir else EFile)"

fun zip_loop :: "fs \<Rightarrow> path \<Rightarrow> path list \<Rightarrow> (path \<times> entry_kind) list
                 \<Rightarrow> error option \<times> (path \<times> entry_kind) list" where
  "zip_loop f src_dir [] acc = (None, acc)"
| "zip_loop f src_dir (p # ps) acc =
     (case relative_to p src_dir of
        None \<Rightarrow> (Some (ValueError (str_path p @ '' is not in the subpath of '' @ str_path src_dir)),
                 acc)
      | Some a \<Rightarrow> zip_loop f src_dir ps (acc @ [zf_write f p a]))"

section \<open>The script: helpers\<close>

definition win_default :: path where
  \<comment> \<open>\<^verbatim>\<open>Path(r"C:\Program Files\KiCad\9.0\bin\kicad-cli.exe")\<close>: one component in the POSIX
      flavour, where the backslash (character 0x5C) is no separator\<close>
  "win_default =
     [''C:'' @ [CHR 0x5C] @ ''Program Files'' @ [CHR 0x5C] @ ''KiCad'' @ [CHR 0x5C] @ ''9.0''
      @ [CHR 0x5C] @ ''bin'' @ [CHR 0x5C] @ ''kicad-cli.exe'']"

definition kicad_not_found :: string where
  "kicad_not_found =
     ''kicad-cli not found on PATH and not at default KiCad 9 location.'' @ [CHR 0x0A]
     @ ''Add KiCad to PATH or set KICAD_CLI env var / adjust this script.''"

definition which_kicad_cli :: "env \<Rightarrow> string prog" where
  "which_kicad_cli e =
     (case which e ''kicad-cli'' of
        Some (c # cs) \<Rightarrow> ret (c # cs)
      | _ \<Rightarrow> thn (path_exists win_default) (\<lambda>found.
               if found then ret (str_path win_default)
               else throw (FileNotFoundError kicad_not_found)))"

definition run :: "env \<Rightarrow> string list \<Rightarrow> string prog" where
  "run e cmd =
     thn (print (join_str '' '' [''>>'', join_str '' '' cmd])) (\<lambda>_.
     thn (subprocess_run e cmd) (\<lambda>res.
     if returncode res \<noteq> 0 then
       thn (print (stdout res)) (\<lambda>_.
       thn (eprint (stderr res)) (\<lambda>_.
       throw (RuntimeError (''Command failed with code '' @ str_int (returncode res)))))
     else ret (strip (stdout res))))"

definition derived_paths :: "path \<Rightarrow> (path \<times> path \<times> path) prog" where
  \<comment> \<open>the first half of \<^verbatim>\<open>project_paths\<close>: the stem and the two companion paths\<close>
  "derived_paths project_file =
     (if lower (suffix project_file) = ''.kicad_pro'' then
        thn (with_suffix project_file []) (\<lambda>stem.
        thn (with_suffix stem ''.kicad_sch'') (\<lambda>sch.
        thn (with_suffix stem ''.kicad_pcb'') (\<lambda>pcb.
        ret (stem, sch, pcb))))
      else
        thn (with_suffix project_file ''.kicad_sch'') (\<lambda>sch.
        thn (with_suffix project_file ''.kicad_pcb'') (\<lambda>pcb.
        ret (project_file, sch, pcb))))"

definition project_paths :: "path \<Rightarrow> (string \<times> path \<times> path) prog" where
  \<comment> \<open>the second half checks that both companions exist\<close>
  "project_paths project_file =
     thn (derived_paths project_file) (\<lambda>(stem, sch, pcb).
     thn (path_exists sch) (\<lambda>sch_found.
     if \<not> sch_found then throw (FileNotFoundError (''Schematic not found: '' @ str_path sch))
     else
     thn (path_exists pcb) (\<lambda>pcb_found.
     if \<not> pcb_found then throw (FileNotFoundError (''Board not found: '' @ str_path pcb))
     else ret (name stem, sch, pcb))))"

definition zip_dir :: "path \<Rightarrow> path \<Rightarrow> unit prog" where
  "zip_dir src_dir zip_path =
     thn (zip_open zip_path) (\<lambda>_ w.
       case zip_loop (fs w) src_dir (rglob (fs w) src_dir) [] of
         (None, entries) \<Rightarrow> zip_close zip_path entries w
       | (Some e, entries) \<Rightarrow> thn (zip_close zip_path entries) (\<lambda>_. throw e) w)"


section \<open>The script: export steps\<close>

definition export_3d :: "env \<Rightarrow> string \<Rightarrow> path \<Rightarrow> path \<Rightarrow> bool \<Rightarrow> path prog" where
  "export_3d e kicad pcb_path out_dir make_glb =
     thn (ensure_dir out_dir) (\<lambda>_.
     let step_out = joinpath out_dir (stem pcb_path @ ''.step'') in
     thn (run e [kicad, ''pcb'', ''export'', ''step'', ''-o'', str_path step_out,
                 str_path pcb_path]) (\<lambda>_.
     thn (if make_glb then
            (let glb_out = joinpath out_dir (stem pcb_path @ ''.glb'') in
             thn (run e [kicad, ''pcb'', ''export'', ''glb'', ''-o'', str_path glb_out,
                         str_path pcb_path]) (\<lambda>_. ret ()))
          else ret ()) (\<lambda>_.
     ret step_out)))"

definition export_pictures ::
    "env \<Rightarrow> string \<Rightarrow> path \<Rightarrow> path \<Rightarrow> bool \<Rightarrow> path list prog" where
  "export_pictures e kicad pcb_path out_dir iso_flag =
     thn (ensure_dir out_dir) (\<lambda>_.
     let top = joinpath out_dir (stem pcb_path @ ''_top.png'');
         bot = joinpath out_dir (stem pcb_path @ ''_bottom.png'');
         side = joinpath out_dir (stem pcb_path @ ''_side.png'') in
     thn (run e [kicad, ''pcb'', ''render'', ''-o'', str_path top, ''--side'', ''top'',
                 ''--background'', ''transparent'', str_path pcb_path]) (\<lambda>_.
     thn (run e [kicad, ''pcb'', ''render'', ''-o'', str_path bot, ''--side'', ''bottom'',
                 ''--background'', ''transparent'', str_path pcb_path]) (\<lambda>_.
     thn (run e [kicad, ''pcb'', ''render'', ''-o'', str_path side, ''--side'', ''left'',
                 ''--background'', ''transparent'', str_path pcb_path]) (\<lambda>_.
     thn (if iso_flag then
            (let iso_out = joinpath out_dir (stem pcb_path @ ''_iso.png'') in
             thn (run e [kicad, ''pcb'', ''render'', ''-o'', str_path iso_out,
                         ''--background'', ''transparent'', ''--perspective'',
                         ''--rotate'', ''-45,0,45'', ''--zoom'', ''1'', str_path pcb_path]) (\<lambda>_.
             ret (Some iso_out)))
          else ret None) (\<lambda>iso_out.
     ret ([top, bot, side] @ (case iso_out of Some p \<Rightarrow> [p] | None \<Rightarrow> [])))))))"

definition layers :: string where
  "layers = join_str '','' [''F.Cu'', ''B.Cu'', ''F.SilkS'', ''B.SilkS'', ''F.Mask'', ''B.Mask'',
                            ''Edge.Cuts'', ''F.Fab'', ''B.Fab'', ''User.Drawings'']"

definition export_docs ::
    "env \<Rightarrow> string \<Rightarrow> path \<Rightarrow> path \<Rightarrow> path \<Rightarrow> bool
     \<Rightarrow> (path \<times> path \<times> path \<times> path option) prog" where
  "export_docs e kicad sch_path pcb_path out_dir include_drc =
     thn (ensure_dir out_dir) (\<lambda>_.
     let sch_pdf = joinpath out_dir (stem sch_path @ ''_schematic.pdf'') in
     thn (run e [kicad, ''sch'', ''export'', ''pdf'', ''-o'', str_path sch_pdf,
                 str_path sch_path]) (\<lambda>_.
     let erc_rpt = joinpath out_dir (stem sch_path @ ''_erc.rpt'') in
     thn (run e [kicad, ''sch'', ''erc'', ''-o'', str_path erc_rpt, str_path sch_path]) (\<lambda>_.
     let board_pdf = joinpath out_dir (stem pcb_path @ ''_board_prints.pdf'') in
     thn (run e [kicad, ''pcb'', ''export'', ''pdf'', ''-o'', str_path board_pdf,
                 ''--layers'', layers, ''--mode-multipage'', str_path pcb_path]) (\<lambda>_.
     thn (if include_drc then
            (let drc_rpt = joinpath out_dir (stem pcb_path @ ''_drc.rpt'') in
             thn (run e [kicad, ''pcb'', ''drc'', ''-o'', str_path drc_rpt, ''--format'',
                         ''report'', str_path pcb_path]) (\<lambda>_.
             ret (Some drc_rpt)))
          else ret None) (\<lambda>drc_rpt.
     ret (sch_pdf, erc_rpt, board_pdf, drc_rpt))))))"

definition bom_fields :: string where
  "bom_fields = ''Reference,Value,Footprint,${QUANTITY},Manufacturer,MPN,Datasheet,${DNP}''"

definition bom_labels :: string where
  "bom_labels = ''Refs,Value,Footprint,Qty,Manufacturer,MPN,Datasheet,DNP''"

definition export_fab ::
    "env \<Rightarrow> string \<Rightarrow> path \<Rightarrow> path \<Rightarrow> path \<Rightarrow> bool
     \<Rightarrow> (path \<times> path \<times> path \<times> path \<times> path option) prog" where
  "export_fab e kicad sch_path pcb_path out_dir zip_outputs =
     thn (ensure_dir out_dir) (\<lambda>root.
     thn (ensure_dir (joinpath root ''gerbers'')) (\<lambda>gerb_dir.
     thn (ensure_dir (joinpath root ''drill'')) (\<lambda>drill_dir.
     thn (run e [kicad, ''pcb'', ''export'', ''gerbers'', ''-o'', str_path gerb_dir,
                 ''--board-plot-params'', str_path pcb_path]) (\<lambda>_.
     thn (run e [kicad, ''pcb'', ''export'', ''drill'', ''-o'', str_path drill_dir,
                 ''--format'', ''excellon'', ''--generate-map'', str_path pcb_path]) (\<lambda>_.
     let pos_csv = joinpath root (stem pcb_path @ ''_pos.csv'') in
     thn (run e [kicad, ''pcb'', ''export'', ''pos'', ''-o'', str_path pos_csv, ''--format'',
                 ''csv'', ''--units'', ''mm'', ''--side'', ''both'', str_path pcb_path]) (\<lambda>_.
     let bom_csv = joinpath root (stem sch_path @ ''_bom.csv'') in
     thn (run e [kicad, ''sch'', ''export'', ''bom'', ''-o'', str_path bom_csv, ''--fields'',
                 bom_fields, ''--labels'', bom_labels, ''--group-by'', ''Value,Footprint,MPN'',
                 str_path sch_path]) (\<lambda>_.
     thn (if zip_outputs then
            thn (timestamp_tag e) (\<lambda>ts.
            let zip_path = joinpath root (stem pcb_path @ ''_gerbers_'' @ ts @ ''.zip'') in
            thn (zip_dir gerb_dir zip_path) (\<lambda>_.
            ret (Some zip_path)))
          else ret None) (\<lambda>zip_path.
     ret (gerb_dir, drill_dir, pos_csv, bom_csv, zip_path)))))))))"

definition run_kikit_fab :: "env \<Rightarrow> string \<Rightarrow> path \<Rightarrow> path \<Rightarrow> path prog" where
  "run_kikit_fab e vendor pcb_path out_dir =
     (case which e ''kikit'' of
        Some (c # cs) \<Rightarrow>
          thn (ensure_dir out_dir) (\<lambda>_.
          thn (run e [c # cs, ''fab'', vendor, str_path pcb_path, str_path out_dir]) (\<lambda>_.
          ret (joinpath out_dir ''gerbers.zip'')))
      | _ \<Rightarrow> throw (FileNotFoundError ''KiKit executable not found on PATH.''))"

section \<open>The script: main\<close>

text \<open>
  The parsed command line. \<open>project\<close> is \<^verbatim>\<open>Path(args.project)\<close>, \<open>root\<close> is
  \<^verbatim>\<open>Path(args.root).resolve()\<close> and \<open>prod_dir\<close> is \<^verbatim>\<open>args.prod_dir\<close> as a path;
  \<open>iso_flag\<close> and \<open>zip_flag\<close> are \<^verbatim>\<open>args.iso\<close> and \<^verbatim>\<open>args.zip\<close>.
\<close>

record args =
  project :: path
  root :: path
  prod_dir :: path
  iso_flag :: bool
  glb :: bool
  zip_flag :: bool
  kikit :: "string option"
  skip_drc :: bool

definition default_args :: "path \<Rightarrow> args" where
  \<comment> \<open>the values argparse fills in when only \<^verbatim>\<open>--project\<close> is given, run from directory \<open>cwd\<close>\<close>
  "default_args p =
     \<lparr>project = p, root = [], prod_dir = [''PRODUCTION''], iso_flag = False, glb = False,
      zip_flag = False, kikit = None, skip_drc = False\<rparr>"

definition all_done :: string where
  \<comment> \<open>the closing line, with the check mark U+2705 in UTF-8\<close>
  "all_done = [CHR 0x0A] @ ''All done '' @ [CHR 0xE2, CHR 0x9C, CHR 0x85]"

definition main :: "env \<Rightarrow> args \<Rightarrow> unit prog" where
  "main e a =
     thn (which_kicad_cli e) (\<lambda>kicad.
     thn (project_paths (project a)) (\<lambda>(proj_stem, sch_path, pcb_path).
     thn (ensure_dir (joinpath (root a) ''3D_MODEL'')) (\<lambda>three_d_dir.
     thn (ensure_dir (joinpath (root a) ''PICTURES'')) (\<lambda>pics_dir.
     thn (ensure_dir (joinpath (root a) ''DOCUMENTATION'')) (\<lambda>docs_dir.
     thn (timestamp_tag e) (\<lambda>ts.
     thn (ensure_dir (joinpath (joinpaths (root a) (prod_dir a)) (ts @ ''_'' @ proj_stem)))
       (\<lambda>prod_root.
     thn (print (''Project: '' @ proj_stem)) (\<lambda>_.
     thn (print (''SCH:     '' @ str_path sch_path)) (\<lambda>_.
     thn (print (''PCB:     '' @ str_path pcb_path)) (\<lambda>_.
     thn (print (''Root:    '' @ str_path (root a))) (\<lambda>_.
     thn (export_3d e kicad pcb_path three_d_dir (glb a)) (\<lambda>_.
     thn (export_pictures e kicad pcb_path pics_dir (iso_flag a)) (\<lambda>_.
     thn (export_docs e kicad sch_path pcb_path docs_dir (\<not> skip_drc a)) (\<lambda>_.
     thn (export_fab e kicad sch_path pcb_path prod_root (zip_flag a)) (\<lambda>_.
     thn (case kikit a of
            Some (c # cs) \<Rightarrow>
              thn (print (''Running KiKit fab for vendor: '' @ (c # cs))) (\<lambda>_.
              thn (run_kikit_fab e (c # cs) pcb_path prod_root) (\<lambda>vendor_zip.
              print (''KiKit vendor ZIP: '' @ str_path vendor_zip)))
          | _ \<Rightarrow> ret ()) (\<lambda>_.
     thn (print all_done) (\<lambda>_.
     thn (print (''- 3D models:       '' @ str_path three_d_dir)) (\<lambda>_.
     thn (print (''- Pictures:        '' @ str_path pics_dir)) (\<lambda>_.
     thn (print (''- Documentation:   '' @ str_path docs_dir)) (\<lambda>_.
     print (''- Production run:  '' @ str_path prod_root)))))))))))))))))))))"

definition program :: "env \<Rightarrow> args \<Rightarrow> world \<Rightarrow> int \<times> world" where
  \<comment> \<open>the \<^verbatim>\<open>__main__\<close> block: the exit status and the world the process leaves\<close>
  "program e a w =
     (case main e a w of
        (Inr _, w') \<Rightarrow> (0, w')
      | (Inl err, w') \<Rightarrow> (1, snd (eprint ([CHR 0x0A] @ ''ERROR: '' @ str_error err) w')))"


section \<open>Observing a run\<close>

definition commands :: "event list \<Rightarrow> string list list" where
  \<comment> \<open>the command lines of the external invocations in a log, in order\<close>
  "commands evs = concat (map (\<lambda>ev. case ev of Invoke cmd _ _ \<Rightarrow> [cmd] | _ \<Rightarrow> []) evs)"

fun after_o :: "string list \<Rightarrow> string option" where
  "after_o [] = None"
| "after_o [x] = None"
| "after_o (x # y # ys) = (if x = ''-o'' then Some y else after_o (y # ys))"

definition out_target :: "string list \<Rightarrow> string option" where
  \<comment> \<open>the output path a command line asks for: the argument after \<^verbatim>\<open>-o\<close>\<close>
  "out_target cmd = after_o (tl cmd)"

definition failed :: "event \<Rightarrow> bool" where
  \<comment> \<open>an external invocation that exited with non-zero status\<close>
  "failed ev = (case ev of Invoke _ res _ \<Rightarrow> returncode res \<noteq> 0 | _ \<Rightarrow> False)"

definition is_drc :: "string list \<Rightarrow> bool" where
  \<comment> \<open>a design-rule-check invocation: \<^verbatim>\<open><exe> pcb drc ...\<close>\<close>
  "is_drc cmd = (take 2 (tl cmd) = [''pcb'', ''drc''])"

definition is_fab :: "string list \<Rightarrow> bool" where
  \<comment> \<open>a vendor packaging invocation: \<^verbatim>\<open><exe> fab ...\<close>\<close>
  "is_fab cmd = (take 1 (tl cmd) = [''fab''])"

definition triple ::
    "(world \<Rightarrow> bool) \<Rightarrow> 'a prog \<Rightarrow> ('a \<Rightarrow> world \<Rightarrow> bool) \<Rightarrow> (error \<Rightarrow> world \<Rightarrow> bool) \<Rightarrow> bool" where
  \<comment> \<open>from a world satisfying \<open>P\<close>, a normal return satisfies \<open>Q\<close> and a raise satisfies \<open>E\<close>\<close>
  "triple P m Q E =
     (\<forall>w. P w \<longrightarrow> (case m w of (Inl e, w') \<Rightarrow> E e w' | (Inr x, w') \<Rightarrow> Q x w'))"


definition ext :: "event list \<Rightarrow> (event list \<Rightarrow> fs \<Rightarrow> bool) \<Rightarrow> world \<Rightarrow> bool" where
  \<comment> \<open>the log extends \<open>l0\<close> by events which, with the current file system, satisfy \<open>\<Phi>\<close>\<close>
  "ext l0 \<Phi> w = (\<exists>evs. log w = l0 @ evs \<and> \<Phi> evs (fs w))"

definition tool_keeps :: "env \<Rightarrow> path \<Rightarrow> bool" where
  \<comment> \<open>no external command removes the entry \<open>q\<close> or changes what it is\<close>
  "tool_keeps e q = (\<forall>cmd f. lookup f q \<noteq> None \<longrightarrow> lookup (snd (tool e cmd f)) q = lookup f q)"

section \<open>Sample environments\<close>

definition quiet :: proc where
  "quiet = \<lparr>returncode = 0, stdout = [], stderr = []\<rparr>"

definition demo_env :: env where
  \<comment> \<open>\<^verbatim>\<open>kicad-cli\<close> and \<^verbatim>\<open>kikit\<close> are on the search path; every command succeeds, prints
      nothing and leaves the file system as it is\<close>
  "demo_env =
     \<lparr>which = (\<lambda>n. if n = ''kicad-cli'' then Some ''/usr/bin/kicad-cli''
                    else if n = ''kikit'' then Some ''/usr/bin/kikit'' else None),
      tool = (\<lambda>cmd f. (quiet, f)),
      clock = (\<lambda>n. ''20260101_1200'')\<rparr>"

definition demo_world :: world where
  "demo_world = \<lparr>fs = [([''board.kicad_sch''], File), ([''board.kicad_pcb''], File)], log = []\<rparr>"

definition fail_env :: env where
  \<comment> \<open>\<^verbatim>\<open>kicad-cli\<close> is on the search path, but every command exits with status 2\<close>
  "fail_env =
     \<lparr>which = (\<lambda>n. if n = ''kicad-cli'' then Some ''/usr/bin/kicad-cli'' else None),
      tool = (\<lambda>cmd f. (\<lparr>returncode = 2, stdout = ''partial output'', stderr = ''boom''\<rparr>, f)),
      clock = (\<lambda>n. ''20260101_1200'')\<rparr>"

definition bare_env :: env where
  \<comment> \<open>nothing is on the search path\<close>
  "bare_env = \<lparr>which = (\<lambda>n. None), tool = (\<lambda>cmd f. (quiet, f)), clock = (\<lambda>n. ''20260101_1200'')\<rparr>"

definition dotted_world :: world where
  \<comment> \<open>the companions that a project named \<^verbatim>\<open>my.board.kicad_pro\<close> is resolved to\<close>
  "dotted_world = \<lparr>fs = [([''my.kicad_sch''], File), ([''my.kicad_pcb''], File)], log = []\<rparr>"

definition gerber_world :: world where
  \<comment> \<open>a production folder whose gerber directory holds two files and a subdirectory\<close>
  "gerber_world =
     \<lparr>fs = [([''out''], Dir), ([''out'', ''gerbers''], Dir),
            ([''out'', ''gerbers'', ''board-F_Cu.gbr''], File),
            ([''out'', ''gerbers'', ''extra''], Dir),
            ([''out'', ''gerbers'', ''extra'', ''board-job.gbrjob''], File),
            ([''out'', ''drill''], Dir),
            ([''out'', ''drill'', ''board.drl''], File)],
      log = []\<rparr>"

definition clean :: "event list \<Rightarrow> bool" where
  \<comment> \<open>no external invocation in the log exited with non-zero status\<close>
  "clean evs = (filter failed evs = [])"

fun ends_failed :: "event list \<Rightarrow> fs \<Rightarrow> error \<Rightarrow> bool" where
  \<comment> \<open>on the log read backwards: the captured output of a failed invocation, the first one
      that failed\<close>
  "ends_failed (Stderr b # Stdout a # Invoke cmd res g # before) f err =
     (g = f \<and> a = stdout res \<and> b = stderr res \<and> returncode res \<noteq> 0 \<and> clean before \<and>
      err = RuntimeError (''Command failed with code '' @ str_int (returncode res)))"
| "ends_failed evs f err = False"

definition stopped :: "event list \<Rightarrow> fs \<Rightarrow> error \<Rightarrow> bool" where
  \<comment> \<open>the log ends with an invocation that failed, the first to do so, which left the file
      system \<open>f\<close>, followed by its captured output and nothing else; \<open>err\<close> is the
      command-failed error for its exit status\<close>
  "stopped evs f err = ends_failed (rev evs) f err"

definition steady :: "event list \<Rightarrow> world \<Rightarrow> bool" where
  \<comment> \<open>since the log was \<open>l0\<close> no invocation has failed\<close>
  "steady l0 = ext l0 (\<lambda>evs f. clean evs)"

definition halted :: "event list \<Rightarrow> error \<Rightarrow> world \<Rightarrow> bool" where
  \<comment> \<open>the state in which \<open>err\<close> propagates: either no invocation has failed and \<open>err\<close> is not
      a command failure, or the run has just stopped at the first failing invocation\<close>
  "halted l0 err =
     ext l0 (\<lambda>evs f. clean evs \<and> (case err of RuntimeError _ \<Rightarrow> False | _ \<Rightarrow> True)
                      \<or> stopped evs f err)"

definition orderly :: "event list \<Rightarrow> 'a prog \<Rightarrow> bool" where
  "orderly l0 m = triple (steady l0) m (\<lambda>_. steady l0) (halted l0)"





definition writes_file :: "env \<Rightarrow> string list \<Rightarrow> path \<Rightarrow> bool" where
  \<comment> \<open>what is assumed of an external command \<open>cmd\<close> that is asked for the output file \<open>p\<close>:
      run where the directory of \<open>p\<close> exists and \<open>p\<close> is no directory, it exits with status 0
      and writes the regular file \<open>p\<close>, creating or replacing it, and changes nothing else\<close>
  "writes_file e cmd p =
     (\<forall>f. is_dir f (parent p) \<and> \<not> is_dir f p \<longrightarrow>
          returncode (fst (tool e cmd f)) = 0 \<and> snd (tool e cmd f) = store f p File)"

definition jobs_3d :: "string \<Rightarrow> path \<Rightarrow> path \<Rightarrow> bool \<Rightarrow> (string list \<times> path) list" where
  \<comment> \<open>the command lines of the 3D export, each with the file it asks for\<close>
  "jobs_3d kicad pcb out g =
     ([kicad, ''pcb'', ''export'', ''step'', ''-o'', str_path (joinpath out (stem pcb @ ''.step'')),
       str_path pcb],
      joinpath out (stem pcb @ ''.step'')) #
     (if g then
        [([kicad, ''pcb'', ''export'', ''glb'', ''-o'',
           str_path (joinpath out (stem pcb @ ''.glb'')), str_path pcb],
          joinpath out (stem pcb @ ''.glb''))]
      else [])"

definition jobs_pictures ::
    "string \<Rightarrow> path \<Rightarrow> path \<Rightarrow> bool \<Rightarrow> (string list \<times> path) list" where
  \<comment> \<open>the command lines of the picture export, each with the file it asks for\<close>
  "jobs_pictures kicad pcb out i =
     [([kicad, ''pcb'', ''render'', ''-o'', str_path (joinpath out (stem pcb @ ''_top.png'')),
        ''--side'', ''top'', ''--background'', ''transparent'', str_path pcb],
       joinpath out (stem pcb @ ''_top.png'')),
      ([kicad, ''pcb'', ''render'', ''-o'', str_path (joinpath out (stem pcb @ ''_bottom.png'')),
        ''--side'', ''bottom'', ''--background'', ''transparent'', str_path pcb],
       joinpath out (stem pcb @ ''_bottom.png'')),
      ([kicad, ''pcb'', ''render'', ''-o'', str_path (joinpath out (stem pcb @ ''_side.png'')),
        ''--side'', ''left'', ''--background'', ''transparent'', str_path pcb],
       joinpath out (stem pcb @ ''_side.png''))] @
     (if i then
        [([kicad, ''pcb'', ''render'', ''-o'', str_path (joinpath out (stem pcb @ ''_iso.png'')),
           ''--background'', ''transparent'', ''--perspective'', ''--rotate'', ''-45,0,45'',
           ''--zoom'', ''1'', str_path pcb],
          joinpath out (stem pcb @ ''_iso.png''))]
      else [])"

definition jobs_docs ::
    "string \<Rightarrow> path \<Rightarrow> path \<Rightarrow> path \<Rightarrow> bool \<Rightarrow> (string list \<times> path) list" where
  \<comment> \<open>the command lines of the documentation export, each with the file it asks for\<close>
  "jobs_docs kicad sch pcb out include_drc =
     [([kicad, ''sch'', ''export'', ''pdf'', ''-o'',
        str_path (joinpath out (stem sch @ ''_schematic.pdf'')), str_path sch],
       joinpath out (stem sch @ ''_schematic.pdf'')),
      ([kicad, ''sch'', ''erc'', ''-o'', str_path (joinpath out (stem sch @ ''_erc.rpt'')),
        str_path sch],
       joinpath out (stem sch @ ''_erc.rpt'')),
      ([kicad, ''pcb'', ''export'', ''pdf'', ''-o'',
        str_path (joinpath out (stem pcb @ ''_board_prints.pdf'')),
        ''--layers'', layers, ''--mode-multipage'', str_path pcb],
       joinpath out (stem pcb @ ''_board_prints.pdf''))] @
     (if include_drc then
        [([kicad, ''pcb'', ''drc'', ''-o'', str_path (joinpath out (stem pcb @ ''_drc.rpt'')),
           ''--format'', ''report'', str_path pcb],
          joinpath out (stem pcb @ ''_drc.rpt''))]
      else [])"

fun split_slash :: "string \<Rightarrow> string \<Rightarrow> string list" where
  "split_slash acc [] = [acc]"
| "split_slash acc (c # cs) =
     (if c = CHR ''/'' then acc # split_slash [] cs else split_slash (acc @ [c]) cs)"

definition path_of :: "string \<Rightarrow> path" where
  \<comment> \<open>the relative path a command-line argument names\<close>
  "path_of s = filter (\<lambda>c. c \<noteq> []) (split_slash [] s)"

definition writer_env :: env where
  \<comment> \<open>as \<open>demo_env\<close>, but a command given \<^verbatim>\<open>-o <file>\<close> writes that file (and leaves an
      existing directory of that name alone)\<close>
  "writer_env =
     \<lparr>which = (\<lambda>n. if n = ''kicad-cli'' then Some ''/usr/bin/kicad-cli''
                    else if n = ''kikit'' then Some ''/usr/bin/kikit'' else None),
      tool = (\<lambda>cmd f. case out_target cmd of
                         None \<Rightarrow> (quiet, f)
                       | Some s \<Rightarrow> (quiet, if is_dir f (path_of s) then f
                                           else store f (path_of s) File)),
      clock = (\<lambda>n. ''20260101_1200'')\<rparr>"

section \<open>Sequencing and the process runner\<close>

lemma thn_Inr_iff:
  "thn m f w = (Inr y, w') \<longleftrightarrow> (\<exists>x w1. m w = (Inr x, w1) \<and> f x w1 = (Inr y, w'))"
  by (auto simp: thn_def split: prod.splits sum.splits)

lemma thn_Inl_iff:
  "thn m f w = (Inl e, w') \<longleftrightarrow>
     m w = (Inl e, w') \<or> (\<exists>x w1. m w = (Inr x, w1) \<and> f x w1 = (Inl e, w'))"
  by (auto simp: thn_def split: prod.splits sum.splits)

lemma thn_ok: "m w = (Inr x, w1) \<Longrightarrow> thn m f w = f x w1"
  by (simp add: thn_def)

lemma thn_err: "m w = (Inl e, w1) \<Longrightarrow> thn m f w = (Inl e, w1)"
  by (simp add: thn_def)

lemma run_eq:
  "run e cmd w =
     (case tool e cmd (fs w) of
        (res, f) \<Rightarrow>
          if returncode res \<noteq> 0 then
            (Inl (RuntimeError (''Command failed with code '' @ str_int (returncode res))),
             w\<lparr>fs := f,
               log := log w @ [Stdout (''>> '' @ join_str '' '' cmd), Invoke cmd res f,
                               Stdout (stdout res), Stderr (stderr res)]\<rparr>)
          else
            (Inr (strip (stdout res)),
             w\<lparr>fs := f, log := log w @ [Stdout (''>> '' @ join_str '' '' cmd), Invoke cmd res f]\<rparr>))"
  by (simp add: run_def thn_def print_def eprint_def subprocess_run_def throw_def ret_def
      join_str_def split: prod.splits)

lemma triple_ret: "(\<And>w. P w \<Longrightarrow> Q x w) \<Longrightarrow> triple P (ret x) Q E"
  by (simp add: triple_def ret_def)

lemma triple_throw: "(\<And>w. P w \<Longrightarrow> E e w) \<Longrightarrow> triple P (throw e) Q E"
  by (simp add: triple_def throw_def)

lemma triple_thn:
  "triple P m R E \<Longrightarrow> (\<And>x. triple (R x) (f x) Q E) \<Longrightarrow> triple P (thn m f) Q E"
  by (fastforce simp: triple_def thn_def split: prod.splits sum.splits)

lemma triple_if:
  "(c \<Longrightarrow> triple P m Q E) \<Longrightarrow> (\<not> c \<Longrightarrow> triple P m' Q E) \<Longrightarrow> triple P (if c then m else m') Q E"
  by simp

lemma triple_weaken:
  "triple P' m Q' E' \<Longrightarrow> (\<And>w. P w \<Longrightarrow> P' w) \<Longrightarrow> (\<And>x w. Q' x w \<Longrightarrow> Q x w)
     \<Longrightarrow> (\<And>e w. E' e w \<Longrightarrow> E e w) \<Longrightarrow> triple P m Q E"
  by (fastforce simp: triple_def split: prod.splits sum.splits)





section \<open>The tool locator and the project resolver\<close>

lemmas eval_defs = program_def main_def thn_def ret_def throw_def print_def eprint_def
  which_kicad_cli_def project_paths_def derived_paths_def with_suffix_def path_exists_def
  exists_path_def lookup_def name_def is_anchor_def suffix_def stem_def rfind_def lower_def
  lower_char_def upper_chars_def lower_chars_def str_path_def join_str_def str_error_def
  default_args_def

lemmas run_defs = ensure_dir_def mkdir_parents.simps mkdir_exist_ok_def os_mkdir_def blocked_def
  is_enoent_def
  is_dir_def parent_def joinpath_def joinpaths_def run_eq timestamp_tag_def export_3d_def
  export_pictures_def export_docs_def export_fab_def run_kikit_fab_def layers_def bom_fields_def
  bom_labels_def quiet_def all_done_def commands_def out_target_def Let_def

lemma which_kicad_cli_world: "snd (which_kicad_cli e w) = w"
  by (simp add: which_kicad_cli_def ret_def thn_def path_exists_def throw_def
      split: option.splits list.splits)

lemma derived_paths_world: "snd (derived_paths p w) = w"
  by (simp add: derived_paths_def with_suffix_def ret_def throw_def thn_def)

lemma project_paths_missing:
  assumes "fst (derived_paths p w) = Inr (st, sch, pcb)"
    and "\<not> exists_path (fs w) sch \<or> \<not> exists_path (fs w) pcb"
  shows "project_paths p w =
           (Inl (FileNotFoundError
                  (if \<not> exists_path (fs w) sch then ''Schematic not found: '' @ str_path sch
                   else ''Board not found: '' @ str_path pcb)), w)"
proof -
  have "derived_paths p w = (Inr (st, sch, pcb), w)"
    using assms(1) derived_paths_world [of p w] by (cases "derived_paths p w") simp
  then show ?thesis
    using assms(2) by (auto simp: project_paths_def thn_def path_exists_def throw_def ret_def)
qed

text \<open>
  Claim C1, on the input where it fails. For the project \<^verbatim>\<open>my.board.kicad_pro\<close> the resolver
  strips \<^verbatim>\<open>.kicad_pro\<close> and returns the base name \<^verbatim>\<open>my.board\<close>, which becomes the tag of the
  production run folder; but \<^verbatim>\<open>with_suffix\<close> then replaces \<^verbatim>\<open>.board\<close>, so the companions are
  \<^verbatim>\<open>my.kicad_sch\<close> and \<^verbatim>\<open>my.kicad_pcb\<close>, and every output file is named after the stem \<^verbatim>\<open>my\<close>:
  the base name of the folder tag and the stem of the output files differ.
\<close>

theorem dotted_project_name_splits_base_name:
  "fst (project_paths [''my.board.kicad_pro''] dotted_world) =
     Inr (''my.board'', [''my.kicad_sch''], [''my.kicad_pcb'']) \<and>
   (case program demo_env (default_args [''my.board.kicad_pro'']) dotted_world of
      (code, w') \<Rightarrow>
        code = 0 \<and>
        map out_target (commands (log w')) =
          [Some ''3D_MODEL/my.step'',
           Some ''PICTURES/my_top.png'', Some ''PICTURES/my_bottom.png'',
           Some ''PICTURES/my_side.png'',
           Some ''DOCUMENTATION/my_schematic.pdf'', Some ''DOCUMENTATION/my_erc.rpt'',
           Some ''DOCUMENTATION/my_board_prints.pdf'', Some ''DOCUMENTATION/my_drc.rpt'',
           Some ''PRODUCTION/20260101_1200_my.board/gerbers'',
           Some ''PRODUCTION/20260101_1200_my.board/drill'',
           Some ''PRODUCTION/20260101_1200_my.board/my_pos.csv'',
           Some ''PRODUCTION/20260101_1200_my.board/my_bom.csv''])"
  by (simp add: eval_defs run_defs demo_env_def dotted_world_def)

text \<open>
  Claim C2 as stated fails: when the schematic is missing the program stops with exit status 1,
  and none of the output directories exists afterwards, because \<^verbatim>\<open>main\<close> resolves the project
  before it creates any directory.
\<close>

theorem missing_schematic_leaves_no_directories:
  "(case program demo_env (default_args [''board.kicad_pro''])
           \<lparr>fs = [([''board.kicad_pcb''], File)], log = []\<rparr> of
      (code, w') \<Rightarrow>
        code = 1 \<and>
        fs w' = [([''board.kicad_pcb''], File)] \<and>
        log w' = [Stderr ([CHR 0x0A] @ ''ERROR: Schematic not found: board.kicad_sch'')] \<and>
        \<not> exists_path (fs w') [''3D_MODEL''] \<and>
        \<not> exists_path (fs w') [''PICTURES''] \<and>
        \<not> exists_path (fs w') [''DOCUMENTATION''] \<and>
        \<not> exists_path (fs w') [''PRODUCTION''])"
  by (simp add: eval_defs demo_env_def)

text \<open>
  Claim C2, amended. Once the CAD tool has been located, for every project input whose derived
  schematic or derived board file does not exist the program ends with exit status 1 and the
  message \<^verbatim>\<open>Schematic not found: <path>\<close> or \<^verbatim>\<open>Board not found: <path>\<close> naming the missing
  path (the schematic first); no external command has been invoked and the file system is
  unchanged, so no output directory has been created: resolution precedes directory creation.
\<close>

theorem missing_companion_fails_before_any_effect:
  assumes "fst (which_kicad_cli e w) = Inr kicad"
    and "fst (derived_paths (project a) w) = Inr (st, sch, pcb)"
    and "\<not> exists_path (fs w) sch \<or> \<not> exists_path (fs w) pcb"
  shows "program e a w =
           (1, w\<lparr>log := log w @
                   [Stderr ([CHR 0x0A] @ ''ERROR: '' @
                      (if \<not> exists_path (fs w) sch then ''Schematic not found: '' @ str_path sch
                       else ''Board not found: '' @ str_path pcb))]\<rparr>)"
proof -
  have k: "which_kicad_cli e w = (Inr kicad, w)"
    using assms(1) which_kicad_cli_world [of e w] by (cases "which_kicad_cli e w") simp
  show ?thesis
    unfolding program_def main_def
    by (simp add: thn_ok [where m = "which_kicad_cli e", OF k]
        thn_err [where m = "project_paths (project a)", OF project_paths_missing [OF assms(2,3)]]
        eprint_def str_error_def)
qed

theorem missing_companion_fails_before_any_effect_witness:
  "program demo_env (default_args [''board.kicad_pro''])
     \<lparr>fs = [([''board.kicad_sch''], File)], log = []\<rparr> =
     (1, \<lparr>fs = [([''board.kicad_sch''], File)],
          log = [Stderr ([CHR 0x0A] @ ''ERROR: Board not found: board.kicad_pcb'')]\<rparr>)"
proof -
  let ?w = "\<lparr>fs = [([''board.kicad_sch''], File)], log = []\<rparr>"
  have 1: "fst (which_kicad_cli demo_env ?w) = Inr ''/usr/bin/kicad-cli''"
    by (simp add: eval_defs demo_env_def)
  have 2: "fst (derived_paths (project (default_args [''board.kicad_pro''])) ?w) =
             Inr ([''board''], [''board.kicad_sch''], [''board.kicad_pcb''])"
    by (simp add: eval_defs)
  have 3: "\<not> exists_path (fs ?w) [''board.kicad_sch''] \<or> \<not> exists_path (fs ?w) [''board.kicad_pcb'']"
    by (simp add: eval_defs)
  have 4: "exists_path (fs ?w) [''board.kicad_sch'']"
    by (simp add: eval_defs)
  show ?thesis
    using missing_companion_fails_before_any_effect [OF 1 2 3] 4
    by (simp add: str_path_def join_str_def is_anchor_def)
qed

text \<open>
  Claim C6. The tool locator first asks the search path for \<^verbatim>\<open>kicad-cli\<close> and returns what it
  finds; otherwise it returns the hard-coded fallback location when that exists; otherwise it
  raises the tool-not-found error, whose message names the search path and the default install
  location and suggests how to fix it. In that last case the program ends with exit status 1,
  having printed only that message: the file system is unchanged, so no directory was created.
\<close>

theorem tool_locator_order_and_failure:
  "(\<forall>exe. which e ''kicad-cli'' = Some exe \<and> exe \<noteq> [] \<longrightarrow> which_kicad_cli e w = (Inr exe, w)) \<and>
   (which e ''kicad-cli'' \<in> {None, Some []} \<and> exists_path (fs w) win_default \<longrightarrow>
      which_kicad_cli e w = (Inr (str_path win_default), w)) \<and>
   (which e ''kicad-cli'' \<in> {None, Some []} \<and> \<not> exists_path (fs w) win_default \<longrightarrow>
      which_kicad_cli e w =
        (Inl (FileNotFoundError
               (''kicad-cli not found on PATH and not at default KiCad 9 location.'' @ [CHR 0x0A]
                @ ''Add KiCad to PATH or set KICAD_CLI env var / adjust this script.'')), w) \<and>
      program e a w =
        (1, w\<lparr>log := log w @
                 [Stderr ([CHR 0x0A] @ ''ERROR: ''
                   @ ''kicad-cli not found on PATH and not at default KiCad 9 location.''
                   @ [CHR 0x0A]
                   @ ''Add KiCad to PATH or set KICAD_CLI env var / adjust this script.'')]\<rparr>))"
  by (auto simp: which_kicad_cli_def ret_def thn_def path_exists_def throw_def program_def main_def
      eprint_def kicad_not_found_def str_error_def split: option.splits list.splits)

theorem tool_locator_order_and_failure_witness:
  "which_kicad_cli demo_env demo_world = (Inr ''/usr/bin/kicad-cli'', demo_world) \<and>
   which_kicad_cli bare_env \<lparr>fs = [(win_default, File)], log = []\<rparr> =
     (Inr (str_path win_default), \<lparr>fs = [(win_default, File)], log = []\<rparr>) \<and>
   program bare_env (default_args [''board.kicad_pro'']) demo_world =
     (1, demo_world\<lparr>log :=
           [Stderr ([CHR 0x0A] @ ''ERROR: ''
              @ ''kicad-cli not found on PATH and not at default KiCad 9 location.''
              @ [CHR 0x0A]
              @ ''Add KiCad to PATH or set KICAD_CLI env var / adjust this script.'')]\<rparr>)"
proof -
  have 1: "which demo_env ''kicad-cli'' = Some ''/usr/bin/kicad-cli'' \<and> ''/usr/bin/kicad-cli'' \<noteq> []"
    by (simp add: demo_env_def)
  have 2: "which bare_env ''kicad-cli'' = None"
    by (simp add: bare_env_def)
  have 3: "exists_path (fs \<lparr>fs = [(win_default, File)], log = []\<rparr>) win_default"
    by (simp add: exists_path_def lookup_def win_default_def name_def is_anchor_def)
  have 4: "\<not> exists_path (fs demo_world) win_default"
    by (simp add: exists_path_def lookup_def win_default_def name_def is_anchor_def
        demo_world_def)
  have 5: "log demo_world = []"
    by (simp add: demo_world_def)
  show ?thesis
    using tool_locator_order_and_failure [of demo_env demo_world "default_args [''board.kicad_pro'']"]
      tool_locator_order_and_failure
        [of bare_env "\<lparr>fs = [(win_default, File)], log = []\<rparr>" "default_args [''board.kicad_pro'']"]
      tool_locator_order_and_failure [of bare_env demo_world "default_args [''board.kicad_pro'']"]
      1 2 3 4 5
    by simp
qed

text \<open>
  Claim C8 as stated fails in its last part: when the command exits with non-zero status it is
  the runner itself that prints the captured standard output and standard error, before it
  raises. Here the command exits with status 2 and the runner's own log shows both.
\<close>

theorem runner_prints_captured_output_itself:
  "log (snd (run fail_env [''kicad-cli'', ''pcb'', ''drc''] \<lparr>fs = [], log = []\<rparr>)) =
     [Stdout ''>> kicad-cli pcb drc'',
      Invoke [''kicad-cli'', ''pcb'', ''drc'']
        \<lparr>returncode = 2, stdout = ''partial output'', stderr = ''boom''\<rparr> [],
      Stdout ''partial output'', Stderr ''boom'']"
  by (simp add: run_eq fail_env_def join_str_def)

section \<open>Creating directories\<close>

lemma lookup_append:
  "lookup (f @ g) q = (case lookup f q of None \<Rightarrow> map_of g q | Some n \<Rightarrow> Some n)"
  by (auto simp: lookup_def map_add_def split: option.splits)

lemma lookup_snoc_old: "lookup f q \<noteq> None \<Longrightarrow> lookup (f @ g) q = lookup f q"
  by (auto simp: lookup_append split: option.splits)

lemma lookup_snoc_new:
  "\<not> exists_path f p \<Longrightarrow> lookup (f @ [(p, n)]) p = Some n"
  by (auto simp: lookup_append exists_path_def split: option.splits)

lemma blocked_None: "blocked f p = None \<longleftrightarrow> (\<forall>n<length p. is_dir f (take n p))"
  by (auto simp: blocked_def find_None_iff)

lemma blocked_Some:
  "blocked f p = Some a \<Longrightarrow> \<not> is_dir f a \<and> (\<exists>n<length p. a = take n p)"
  by (auto simp: blocked_def find_Some_iff)

lemma blocked_parent:
  assumes "blocked f p = None"
  shows "is_dir f (parent p)"
proof (cases "name p = []")
  case True
  then show ?thesis by (simp add: parent_def is_dir_def lookup_def)
next
  case False
  then have "p \<noteq> []" by (auto simp: name_def)
  then have "length p - 1 < length p" by simp
  with assms have "is_dir f (take (length p - 1) p)"
    by (simp only: blocked_None)
  then show ?thesis
    using False by (simp add: parent_def butlast_conv_take)
qed

lemma os_mkdir_Inr:
  "os_mkdir f p = Inr f' \<longleftrightarrow>
     f' = f @ [(p, Dir)] \<and> \<not> exists_path f p \<and> blocked f p = None"
  by (auto simp: os_mkdir_def split: option.splits)

lemma os_mkdir_exists: "exists_path f p \<Longrightarrow> os_mkdir f p = Inl (FileExistsError p)"
  by (simp add: os_mkdir_def)

lemma os_mkdir_not_runtime: "os_mkdir f p \<noteq> Inl (RuntimeError m)"
  by (simp add: os_mkdir_def split: option.splits)

lemma mkdir_exist_ok_Inr:
  "mkdir_exist_ok f p = Inr f' \<longleftrightarrow>
     (f' = f \<and> is_dir f p) \<or> (f' = f @ [(p, Dir)] \<and> \<not> exists_path f p \<and> blocked f p = None)"
  by (auto simp: mkdir_exist_ok_def os_mkdir_def is_enoent_def is_dir_def exists_path_def
      split: sum.splits option.splits)

lemma mkdir_exist_ok_not_runtime: "mkdir_exist_ok f p \<noteq> Inl (RuntimeError m)"
  by (auto simp: mkdir_exist_ok_def os_mkdir_def is_enoent_def
      split: sum.splits if_splits option.splits)

lemma mkdir_parents_idem: "is_dir f p \<Longrightarrow> mkdir_parents f p = Inr f"
  by (subst mkdir_parents.simps)
     (simp add: os_mkdir_def is_enoent_def mkdir_exist_ok_def is_dir_def exists_path_def)

lemma mkdir_parents_not_runtime: "mkdir_parents f p \<noteq> Inl (RuntimeError m)"
proof (induction f p rule: mkdir_parents.induct)
  case (1 f p)
  show ?case
    using "1.IH" os_mkdir_not_runtime [of f p m] mkdir_exist_ok_not_runtime [of _ p m]
    by (subst mkdir_parents.simps) (auto split: sum.splits)
qed

lemma mkdir_parents_Inr:
  "mkdir_parents f p = Inr f' \<Longrightarrow>
     is_dir f' p \<and> (\<forall>q. lookup f q \<noteq> None \<longrightarrow> lookup f' q = lookup f q) \<and>
     (\<exists>ds. f' = f @ map (\<lambda>d. (d, Dir)) ds)"
proof (induction f p arbitrary: f' rule: mkdir_parents.induct)
  case (1 f p)
  show ?case
  proof (cases "is_enoent (os_mkdir f p)")
    case False
    then have "mkdir_exist_ok f p = Inr f'"
      using "1.prems" by (subst (asm) mkdir_parents.simps) simp
    then consider "f' = f" "is_dir f p"
      | "f' = f @ [(p, Dir)]" "\<not> exists_path f p"
      by (auto simp: mkdir_exist_ok_Inr)
    then show ?thesis
    proof cases
      case 1
      then show ?thesis by (auto intro: exI [of _ "[]"])
    next
      case 2
      then show ?thesis
        by (auto simp: is_dir_def lookup_snoc_new lookup_snoc_old intro: exI [of _ "[p]"])
    qed
  next
    case True
    then have ne: "parent p \<noteq> p"
      using "1.prems" by (subst (asm) mkdir_parents.simps) (auto simp: is_enoent_def)
    then obtain f1 where f1: "mkdir_parents f (parent p) = Inr f1" and m: "mkdir_exist_ok f1 p = Inr f'"
      using "1.prems" True by (subst (asm) mkdir_parents.simps) (auto split: sum.splits)
    from "1.IH" [OF True ne f1]
    have ih: "\<forall>q. lookup f q \<noteq> None \<longrightarrow> lookup f1 q = lookup f q"
      and ds: "\<exists>ds. f1 = f @ map (\<lambda>d. (d, Dir)) ds"
      by auto
    from ds obtain ds where ds: "f1 = f @ map (\<lambda>d. (d, Dir)) ds" ..
    from m consider "f' = f1" "is_dir f1 p"
      | "f' = f1 @ [(p, Dir)]" "\<not> exists_path f1 p"
      by (auto simp: mkdir_exist_ok_Inr)
    then show ?thesis
    proof cases
      case 1
      then show ?thesis using ih ds by (auto intro: exI [of _ ds])
    next
      case 2
      have "lookup f' p = Some Dir" using 2 by (simp add: lookup_snoc_new)
      moreover have "\<forall>q. lookup f q \<noteq> None \<longrightarrow> lookup f' q = lookup f q"
        using ih 2 by (auto simp: lookup_snoc_old)
      moreover have "\<exists>ds'. f' = f @ map (\<lambda>d. (d, Dir)) ds'"
        using 2 ds by (intro exI [of _ "ds @ [p]"]) simp
      ultimately show ?thesis unfolding is_dir_def by blast
    qed
  qed
qed

section \<open>The zip helper\<close>

lemma map_of_replace:
  "map_of (map (\<lambda>(q, m). if q = p then (q, n) else (q, m)) g) q' =
     (if q' = p then (if map_of g p = None then None else Some n) else map_of g q')"
  by (induction g) auto

lemma replace_absent:
  "map_of g p = None \<Longrightarrow> map (\<lambda>(q, m). if q = p then (q, n) else (q, m)) g = g"
  by (induction g) (auto split: if_splits)

lemma replace_replace:
  "map (\<lambda>(q, m). if q = p then (q, n') else (q, m))
     (map (\<lambda>(q, m). if q = p then (q, n) else (q, m)) g) =
   map (\<lambda>(q, m). if q = p then (q, n') else (q, m)) g"
  by (induction g) auto

lemma map_of_store: "map_of (store f p n) q = (if q = p then Some n else map_of f q)"
  by (auto simp: store_def map_add_def map_of_replace split: option.splits)

lemma keys_store:
  "map fst (store f p n) = (if map_of f p = None then map fst f @ [p] else map fst f)"
proof -
  have "map fst (map (\<lambda>(q, m). if q = p then (q, n) else (q, m)) g) = map fst g" for g
    by (induction g) auto
  then show ?thesis by (simp add: store_def)
qed

lemma lookup_store: "lookup (store f p n) q = (if q = p \<and> name p \<noteq> [] then Some n else lookup f q)"
  by (simp add: lookup_def map_of_store)

lemma store_store: "store (store f p n) p n' = store f p n'"
  by (cases "map_of f p = None")
     (auto simp: store_def map_of_replace replace_absent)

lemma zip_loop_under:
  "\<forall>p\<in>set ps. under src p \<Longrightarrow>
     zip_loop f src ps acc =
       (None, acc @ map (\<lambda>p. (drop (length src) p, if is_dir f p then EDir else EFile)) ps)"
  by (induction ps arbitrary: acc) (auto simp: under_def relative_to_def zf_write_def)

lemma rglob_under: "p \<in> set (rglob f src) \<Longrightarrow> under src p"
  by (auto simp: rglob_def split: if_splits)

lemma set_rglob:
  "is_dir f src \<Longrightarrow> set (rglob f src) = {p \<in> fst ` set f. under src p}"
  by (auto simp: rglob_def)

lemma distinct_rglob: "distinct (rglob f src)"
  by (simp add: rglob_def)

lemma drop_inj_under: "under src p \<Longrightarrow> under src p' \<Longrightarrow>
    drop (length src) p = drop (length src) p' \<Longrightarrow> p = p'"
  by (metis append_take_drop_id under_def)

lemma zip_dir_eq:
  assumes "is_dir (fs w) (parent zp)" and "\<not> is_dir (fs w) zp"
  shows "zip_dir src zp w =
           (Inr (),
            w\<lparr>fs := store (fs w) zp
                     (ZipFile (map (\<lambda>p. (drop (length src) p,
                                         if is_dir (store (fs w) zp (ZipFile [])) p then EDir
                                         else EFile))
                                 (rglob (store (fs w) zp (ZipFile [])) src)))\<rparr>)"
  using assms
  by (simp add: zip_dir_def thn_def zip_open_def zip_close_def is_dir_def exists_path_def
      zip_loop_under rglob_under store_store)

text \<open>
  Claim C10. For a source directory \<open>src\<close> and an archive path whose parent is a directory
  and which is not itself a directory, the zip helper always succeeds (the relative-path
  computation never fails) and leaves at the archive path an archive with exactly these
  members, each exactly once: for every entry \<open>p\<close> strictly below \<open>src\<close> in the file system
  (files and directories alike, at any depth; the archive itself counts when it lies below
  \<open>src\<close>, since it exists when the walk starts) one member named by the path of \<open>p\<close> relative
  to \<open>src\<close>, a directory member for a directory and a file member otherwise; nothing else.
\<close>

theorem zip_mirrors_source_tree:
  assumes "is_dir (fs w) src" and "is_dir (fs w) (parent zp)" and "\<not> is_dir (fs w) zp"
  shows "\<exists>es. zip_dir src zp w = (Inr (), w\<lparr>fs := store (fs w) zp (ZipFile es)\<rparr>) \<and>
           lookup (store (fs w) zp (ZipFile es)) zp = Some (ZipFile es) \<and>
           distinct (map fst es) \<and>
           (\<forall>a k. (a, k) \<in> set es \<longleftrightarrow>
              under src (src @ a) \<and> (src @ a \<in> fst ` set (fs w) \<or> src @ a = zp) \<and>
              k = (if is_dir (fs w) (src @ a) then EDir else EFile))"
proof -
  let ?f1 = "store (fs w) zp (ZipFile [])"
  let ?kind = "\<lambda>p. if is_dir ?f1 p then EDir else EFile"
  let ?es = "map (\<lambda>p. (drop (length src) p, ?kind p)) (rglob ?f1 src)"
  have nm: "name zp \<noteq> []"
    using assms(3) by (auto simp: is_dir_def lookup_def)
  have ne: "src \<noteq> zp"
    using assms(1,3) by auto
  have dir1: "is_dir ?f1 p \<longleftrightarrow> is_dir (fs w) p" for p
    using assms(3) nm by (auto simp: is_dir_def lookup_store)
  have keys1: "fst ` set ?f1 = insert zp (fst ` set (fs w)) \<or> fst ` set ?f1 = fst ` set (fs w) \<and> zp \<in> fst ` set (fs w)"
  proof (cases "map_of (fs w) zp = None")
    case True
    have "set (map fst ?f1) = insert zp (set (map fst (fs w)))"
      using True by (simp add: keys_store)
    then show ?thesis by simp
  next
    case False
    then have "zp \<in> fst ` set (fs w)"
      by (metis map_of_eq_None_iff)
    moreover have "set (map fst ?f1) = set (map fst (fs w))"
      using False by (auto simp: keys_store)
    ultimately show ?thesis by simp
  qed
  then have keys: "p \<in> fst ` set ?f1 \<longleftrightarrow> p \<in> fst ` set (fs w) \<or> p = zp" for p
    by auto
  have run: "zip_dir src zp w = (Inr (), w\<lparr>fs := store (fs w) zp (ZipFile ?es)\<rparr>)"
    by (rule zip_dir_eq [OF assms(2,3)])
  have look: "lookup (store (fs w) zp (ZipFile ?es)) zp = Some (ZipFile ?es)"
    using nm by (simp add: lookup_store)
  have "inj_on (drop (length src)) (set (rglob ?f1 src))"
    by (rule inj_onI) (blast intro: drop_inj_under rglob_under)
  then have dist: "distinct (map fst ?es)"
    by (simp add: o_def distinct_map distinct_rglob)
  have mem: "(a, k) \<in> set ?es \<longleftrightarrow>
               under src (src @ a) \<and> (src @ a \<in> fst ` set (fs w) \<or> src @ a = zp) \<and>
               k = (if is_dir (fs w) (src @ a) then EDir else EFile)" for a k
  proof
    assume "(a, k) \<in> set ?es"
    then obtain p where p: "p \<in> set (rglob ?f1 src)" and a: "a = drop (length src) p"
      and k: "k = ?kind p"
      by auto
    have u: "under src p" using p by (rule rglob_under)
    then have "src @ a = p"
      using a by (metis append_take_drop_id under_def)
    moreover have "p \<in> fst ` set ?f1"
      using p assms(1) dir1 [of src] by (simp add: set_rglob)
    ultimately show "under src (src @ a) \<and> (src @ a \<in> fst ` set (fs w) \<or> src @ a = zp) \<and>
               k = (if is_dir (fs w) (src @ a) then EDir else EFile)"
      using u k keys [of p] dir1 [of p] by simp
  next
    assume r: "under src (src @ a) \<and> (src @ a \<in> fst ` set (fs w) \<or> src @ a = zp) \<and>
               k = (if is_dir (fs w) (src @ a) then EDir else EFile)"
    then have "src @ a \<in> set (rglob ?f1 src)"
      using assms(1) dir1 [of src] keys [of "src @ a"] by (simp add: set_rglob)
    moreover have "(a, k) = (drop (length src) (src @ a), ?kind (src @ a))"
      using r dir1 [of "src @ a"] by simp
    ultimately show "(a, k) \<in> set ?es"
      by (metis (no_types, lifting) image_eqI list.set_map)
  qed
  show ?thesis
    using run look dist mem by blast
qed

theorem zip_mirrors_source_tree_witness:
  "zip_dir [''out'', ''gerbers''] [''out'', ''board_gerbers_20260101_1200.zip''] gerber_world =
     (Inr (),
      gerber_world\<lparr>fs := fs gerber_world @
        [([''out'', ''board_gerbers_20260101_1200.zip''],
          ZipFile [([''board-F_Cu.gbr''], EFile), ([''extra''], EDir),
                   ([''extra'', ''board-job.gbrjob''], EFile)])]\<rparr>)"
proof -
  have 1: "is_dir (fs gerber_world) [''out'', ''gerbers'']"
    by (simp add: gerber_world_def is_dir_def lookup_def name_def is_anchor_def)
  have 2: "is_dir (fs gerber_world) (parent [''out'', ''board_gerbers_20260101_1200.zip''])"
    by (simp add: gerber_world_def is_dir_def lookup_def name_def is_anchor_def parent_def)
  have 3: "\<not> is_dir (fs gerber_world) [''out'', ''board_gerbers_20260101_1200.zip'']"
    by (simp add: gerber_world_def is_dir_def lookup_def name_def is_anchor_def)
  from zip_mirrors_source_tree [OF 1 2 3] obtain es where
    "zip_dir [''out'', ''gerbers''] [''out'', ''board_gerbers_20260101_1200.zip''] gerber_world =
       (Inr (), gerber_world\<lparr>fs := store (fs gerber_world)
                  [''out'', ''board_gerbers_20260101_1200.zip''] (ZipFile es)\<rparr>)"
    by blast
  moreover have
    "zip_dir [''out'', ''gerbers''] [''out'', ''board_gerbers_20260101_1200.zip''] gerber_world =
     (Inr (),
      gerber_world\<lparr>fs := fs gerber_world @
        [([''out'', ''board_gerbers_20260101_1200.zip''],
          ZipFile [([''board-F_Cu.gbr''], EFile), ([''extra''], EDir),
                   ([''extra'', ''board-job.gbrjob''], EFile)])]\<rparr>)"
    by (simp add: zip_dir_eq [OF 2 3])
       (simp add: gerber_world_def store_def rglob_def under_def is_dir_def lookup_def name_def
          is_anchor_def)
  ultimately show ?thesis by simp
qed

section \<open>Completed export stages\<close>

lemma ret_iff: "ret x w = (r, w') \<longleftrightarrow> r = Inr x \<and> w' = w"
  by (auto simp: ret_def)

lemma ensure_dir_Inr_iff:
  "ensure_dir p w = (Inr r, w') \<longleftrightarrow>
     (\<exists>f. mkdir_parents (fs w) p = Inr f \<and> r = p \<and> w' = w\<lparr>fs := f\<rparr>)"
  by (auto simp: ensure_dir_def split: sum.splits)

lemma run_Inr_iff:
  "run e cmd w = (Inr s, w') \<longleftrightarrow>
     returncode (fst (tool e cmd (fs w))) = 0 \<and> s = strip (stdout (fst (tool e cmd (fs w)))) \<and>
     w' = w\<lparr>fs := snd (tool e cmd (fs w)),
            log := log w @ [Stdout (''>> '' @ join_str '' '' cmd),
                            Invoke cmd (fst (tool e cmd (fs w))) (snd (tool e cmd (fs w)))]\<rparr>"
  by (auto simp: run_eq split: prod.splits)

lemma commands_append [simp]: "commands (xs @ ys) = commands xs @ commands ys"
  by (simp add: commands_def)

lemma commands_simps [simp]:
  "commands [] = []"
  "commands (Stdout s # evs) = commands evs"
  "commands (Stderr s # evs) = commands evs"
  "commands (Invoke cmd r f # evs) = cmd # commands evs"
  by (simp_all add: commands_def)

lemma export_3d_Inr:
  assumes "export_3d e kicad pcb out g w = (Inr r, w')"
  shows "r = joinpath out (stem pcb @ ''.step'') \<and>
         commands (log w') = commands (log w) @
           [kicad, ''pcb'', ''export'', ''step'', ''-o'',
            str_path (joinpath out (stem pcb @ ''.step'')), str_path pcb] #
           (if g then [[kicad, ''pcb'', ''export'', ''glb'', ''-o'',
                        str_path (joinpath out (stem pcb @ ''.glb'')), str_path pcb]]
            else [])"
  using assms
  by (auto simp: export_3d_def Let_def thn_Inr_iff ret_iff ensure_dir_Inr_iff run_Inr_iff
      split: if_splits)

lemma export_pictures_Inr:
  assumes "export_pictures e kicad pcb out i w = (Inr r, w')"
  shows "r = [joinpath out (stem pcb @ ''_top.png''), joinpath out (stem pcb @ ''_bottom.png''),
              joinpath out (stem pcb @ ''_side.png'')] @
             (if i then [joinpath out (stem pcb @ ''_iso.png'')] else []) \<and>
         commands (log w') = commands (log w) @
           [[kicad, ''pcb'', ''render'', ''-o'', str_path (joinpath out (stem pcb @ ''_top.png'')),
             ''--side'', ''top'', ''--background'', ''transparent'', str_path pcb],
            [kicad, ''pcb'', ''render'', ''-o'',
             str_path (joinpath out (stem pcb @ ''_bottom.png'')),
             ''--side'', ''bottom'', ''--background'', ''transparent'', str_path pcb],
            [kicad, ''pcb'', ''render'', ''-o'', str_path (joinpath out (stem pcb @ ''_side.png'')),
             ''--side'', ''left'', ''--background'', ''transparent'', str_path pcb]] @
           (if i then [[kicad, ''pcb'', ''render'', ''-o'',
                        str_path (joinpath out (stem pcb @ ''_iso.png'')),
                        ''--background'', ''transparent'', ''--perspective'',
                        ''--rotate'', ''-45,0,45'', ''--zoom'', ''1'', str_path pcb]]
            else [])"
  using assms
  by (auto simp: export_pictures_def Let_def thn_Inr_iff ret_iff ensure_dir_Inr_iff run_Inr_iff
      split: if_splits)

section \<open>Halting at a failed command\<close>

lemma clean_simps [simp]:
  "clean []"
  "clean (evs @ evs') \<longleftrightarrow> clean evs \<and> clean evs'"
  "clean (Stdout s # evs) \<longleftrightarrow> clean evs"
  "clean (Stderr s # evs) \<longleftrightarrow> clean evs"
  "clean (Invoke cmd res f # evs) \<longleftrightarrow> returncode res = 0 \<and> clean evs"
  by (auto simp: clean_def failed_def)

lemma clean_rev [simp]: "clean (rev evs) \<longleftrightarrow> clean evs"
  by (simp add: clean_def flip: rev_filter)

lemma stopped_iff:
  "stopped evs f err \<longleftrightarrow>
     (\<exists>pre cmd res. evs = pre @ [Invoke cmd res f, Stdout (stdout res), Stderr (stderr res)] \<and>
        clean pre \<and> returncode res \<noteq> 0 \<and>
        err = RuntimeError (''Command failed with code '' @ str_int (returncode res)))"
proof
  assume "stopped evs f err"
  then have "ends_failed (rev evs) f err"
    by (simp add: stopped_def)
  then obtain b a cmd res before where
    r: "rev evs = Stderr b # Stdout a # Invoke cmd res f # before"
    and *: "a = stdout res" "b = stderr res" "returncode res \<noteq> 0" "clean before"
      "err = RuntimeError (''Command failed with code '' @ str_int (returncode res))"
    by (rule ends_failed.elims(2)) blast
  from r have "evs = rev before @ [Invoke cmd res f, Stdout a, Stderr b]"
    by (simp add: rev_swap)
  with * show "\<exists>pre cmd res. evs = pre @ [Invoke cmd res f, Stdout (stdout res), Stderr (stderr res)] \<and>
        clean pre \<and> returncode res \<noteq> 0 \<and>
        err = RuntimeError (''Command failed with code '' @ str_int (returncode res))"
    by (metis clean_rev)
next
  assume "\<exists>pre cmd res. evs = pre @ [Invoke cmd res f, Stdout (stdout res), Stderr (stderr res)] \<and>
        clean pre \<and> returncode res \<noteq> 0 \<and>
        err = RuntimeError (''Command failed with code '' @ str_int (returncode res))"
  then show "stopped evs f err"
    by (auto simp: stopped_def)
qed


lemma orderly_thn: "orderly l0 m \<Longrightarrow> (\<And>x. orderly l0 (f x)) \<Longrightarrow> orderly l0 (thn m f)"
  unfolding orderly_def by (rule triple_thn)

lemma orderly_if:
  "(c \<Longrightarrow> orderly l0 m) \<Longrightarrow> (\<not> c \<Longrightarrow> orderly l0 m') \<Longrightarrow> orderly l0 (if c then m else m')"
  by simp

lemma orderly_case_prod:
  "(\<And>a b. orderly l0 (f a b)) \<Longrightarrow> orderly l0 (case x of (a, b) \<Rightarrow> f a b)"
  by (cases x) simp

lemma orderly_ret: "orderly l0 (ret x)"
  by (simp add: orderly_def triple_def ret_def)

lemma orderly_quiet:
  assumes "\<And>w. log (snd (m w)) = log w"
    and "\<And>w msg. fst (m w) \<noteq> Inl (RuntimeError msg)"
  shows "orderly l0 m"
  unfolding orderly_def triple_def
proof (intro allI impI)
  fix w assume s: "steady l0 w"
  obtain r w' where m: "m w = (r, w')" by (cases "m w")
  have l: "log w' = log w" using assms(1) [of w] m by simp
  show "case m w of (Inl e, w') \<Rightarrow> halted l0 e w' | (Inr x, w') \<Rightarrow> steady l0 w'"
  proof (cases r)
    case (Inl err)
    then have "case err of RuntimeError _ \<Rightarrow> False | _ \<Rightarrow> True"
      using assms(2) [of w] m by (cases err) auto
    then show ?thesis
      using s l m Inl by (auto simp: steady_def halted_def ext_def)
  next
    case (Inr x)
    then show ?thesis
      using s l m by (auto simp: steady_def ext_def)
  qed
qed

lemma orderly_throw_FileNotFoundError: "orderly l0 (throw (FileNotFoundError msg))"
  by (rule orderly_quiet) (simp_all add: throw_def)

lemma orderly_print: "orderly l0 (print s)"
  by (auto simp: orderly_def triple_def print_def steady_def ext_def)

lemma orderly_run: "orderly l0 (run e cmd)"
  by (auto simp: orderly_def triple_def run_eq steady_def halted_def ext_def stopped_def
      split: prod.splits)

lemma ensure_dir_log: "log (snd (ensure_dir p w)) = log w"
  by (auto simp: ensure_dir_def split: sum.splits)

lemma orderly_ensure_dir: "orderly l0 (ensure_dir p)"
  by (rule orderly_quiet)
     (auto simp: ensure_dir_log ensure_dir_def mkdir_parents_not_runtime split: sum.splits)

lemma zip_dir_log: "log (snd (zip_dir src zp w)) = log w"
  by (auto simp: zip_dir_def thn_def zip_open_def zip_close_def throw_def
      split: prod.splits option.splits)

lemma zip_loop_not_runtime: "zip_loop f src ps acc \<noteq> (Some (RuntimeError msg), es)"
  by (induction ps arbitrary: acc) (auto split: option.splits)

lemma zip_dir_not_runtime: "fst (zip_dir src zp w) \<noteq> Inl (RuntimeError msg)"
  by (auto simp: zip_dir_def thn_def zip_open_def zip_close_def throw_def zip_loop_not_runtime
      split: prod.splits option.splits)

lemma orderly_zip_dir: "orderly l0 (zip_dir src zp)"
  by (rule orderly_quiet) (simp_all add: zip_dir_log zip_dir_not_runtime)


lemma orderly_timestamp_tag: "orderly l0 (timestamp_tag e)"
  by (rule orderly_quiet) (simp_all add: timestamp_tag_def)

lemma which_kicad_cli_not_runtime: "fst (which_kicad_cli e w) \<noteq> Inl (RuntimeError msg)"
  by (simp add: which_kicad_cli_def ret_def thn_def path_exists_def throw_def
      split: option.splits list.splits)

lemma orderly_which_kicad_cli: "orderly l0 (which_kicad_cli e)"
  by (rule orderly_quiet) (simp_all add: which_kicad_cli_world which_kicad_cli_not_runtime)

lemma path_exists_world: "snd (path_exists p w) = w"
  by (simp add: path_exists_def)

lemma project_paths_world: "snd (project_paths p w) = w"
  by (auto simp: project_paths_def thn_def path_exists_def throw_def ret_def
      split: prod.splits sum.splits)
     (metis derived_paths_world snd_conv)+

lemma project_paths_not_runtime: "fst (project_paths p w) \<noteq> Inl (RuntimeError msg)"
  by (auto simp: project_paths_def derived_paths_def with_suffix_def thn_def path_exists_def
      throw_def ret_def split: prod.splits sum.splits if_splits)

lemma orderly_project_paths: "orderly l0 (project_paths p)"
  by (rule orderly_quiet) (simp_all add: project_paths_world project_paths_not_runtime)

lemmas orderly_intros = orderly_thn orderly_if orderly_case_prod orderly_ret
  orderly_throw_FileNotFoundError orderly_print orderly_run orderly_ensure_dir orderly_zip_dir
  orderly_timestamp_tag orderly_which_kicad_cli orderly_project_paths

lemma orderly_export_3d: "orderly l0 (export_3d e kicad pcb out g)"
  unfolding export_3d_def Let_def by (intro orderly_intros)

lemma orderly_export_pictures: "orderly l0 (export_pictures e kicad pcb out i)"
  unfolding export_pictures_def Let_def by (intro orderly_intros)

lemma orderly_export_docs: "orderly l0 (export_docs e kicad sch pcb out d)"
  unfolding export_docs_def Let_def by (intro orderly_intros)

lemma orderly_export_fab: "orderly l0 (export_fab e kicad sch pcb out z)"
  unfolding export_fab_def Let_def by (intro orderly_intros)

lemma orderly_run_kikit_fab: "orderly l0 (run_kikit_fab e vendor pcb out)"
  unfolding run_kikit_fab_def
  by (auto split: option.split list.split intro!: orderly_intros)

lemma orderly_main: "orderly l0 (main e a)"
  unfolding main_def
  by (intro orderly_intros orderly_export_3d orderly_export_pictures orderly_export_docs
        orderly_export_fab)
     (auto split: option.split list.split intro!: orderly_intros orderly_run_kikit_fab)






















lemma program_eq:
  "program e a w =
     (case main e a w of
        (Inr u, w') \<Rightarrow> (0, w')
      | (Inl err, w') \<Rightarrow>
          (1, w'\<lparr>log := log w' @ [Stderr ([CHR 0x0A] @ ''ERROR: '' @ str_error err)]\<rparr>))"
  by (simp add: program_def eprint_def split: prod.splits sum.splits)


lemma program_orderly:
  "\<exists>evs. log (snd (program e a w)) = log w @ evs \<and>
     (fst (program e a w) = 0 \<and> clean evs \<or>
      fst (program e a w) = 1 \<and>
      (\<exists>err pre. evs = pre @ [Stderr ([CHR 0x0A] @ ''ERROR: '' @ str_error err)] \<and>
         (clean pre \<and> (\<forall>m. err \<noteq> RuntimeError m) \<or>
          stopped pre (fs (snd (program e a w))) err)))"
proof -
  have s: "steady (log w) w"
    by (simp add: steady_def ext_def)
  obtain r w1 where m: "main e a w = (r, w1)"
    by (cases "main e a w")
  show ?thesis
  proof (cases r)
    case (Inr u)
    then have "steady (log w) w1"
      using orderly_main [of "log w" e a] s m by (auto simp: orderly_def triple_def)
    then show ?thesis
      using m Inr by (auto simp: program_eq steady_def ext_def)
  next
    case (Inl err)
    then have "halted (log w) err w1"
      using orderly_main [of "log w" e a] s m by (auto simp: orderly_def triple_def)
    then obtain pre where pre: "log w1 = log w @ pre"
      and h: "clean pre \<and> (\<forall>m. err \<noteq> RuntimeError m) \<or> stopped pre (fs w1) err"
      by (cases err) (auto simp: halted_def ext_def)
    show ?thesis
      using m Inl pre h
      by (intro exI [of _ "pre @ [Stderr ([CHR 0x0A] @ ''ERROR: '' @ str_error err)]"])
         (auto simp: program_eq)
  qed
qed

lemma clean_Cons: "clean (x # xs) \<longleftrightarrow> \<not> failed x \<and> clean xs"
  by (simp add: clean_def)

lemma first_failed_unique:
  "pre @ x # post = pre' @ y # post' \<Longrightarrow> failed x \<Longrightarrow> clean pre' \<Longrightarrow> clean post'
     \<Longrightarrow> pre = pre' \<and> x = y \<and> post = post'"
proof (induction pre arbitrary: pre')
  case Nil
  then show ?case by (cases pre') (auto simp: clean_Cons)
next
  case (Cons a as)
  show ?case
  proof (cases pre')
    case Nil
    then have "x \<in> set post'" using Cons.prems(1) by auto
    then show ?thesis
      using Cons.prems(2,4) by (auto simp: clean_def filter_empty_conv)
  next
    case (Cons b bs)
    then show ?thesis
      using Cons.IH [of bs] Cons.prems by (auto simp: clean_Cons)
  qed
qed

lemma failed_Invoke [simp]: "failed (Invoke cmd res f) \<longleftrightarrow> returncode res \<noteq> 0"
  by (simp add: failed_def)

lemma program_failed_command:
  assumes "log (snd (program e a w)) = log w @ pre @ Invoke c r g # post"
    and "returncode r \<noteq> 0"
  shows "post = [Stdout (stdout r), Stderr (stderr r),
                 Stderr ([CHR 0x0A] @ ''ERROR: Command failed with code '' @ str_int (returncode r))] \<and>
         clean pre \<and> fst (program e a w) = 1 \<and> g = fs (snd (program e a w))"
proof -
  from program_orderly [of e a w] obtain evs where
    evs: "log (snd (program e a w)) = log w @ evs"
    and c: "fst (program e a w) = 0 \<and> clean evs \<or>
      fst (program e a w) = 1 \<and>
      (\<exists>err pre. evs = pre @ [Stderr ([CHR 0x0A] @ ''ERROR: '' @ str_error err)] \<and>
         (clean pre \<and> (\<forall>m. err \<noteq> RuntimeError m) \<or>
          stopped pre (fs (snd (program e a w))) err))"
    by blast
  have e: "evs = pre @ Invoke c r g # post"
    using evs assms(1) by simp
  then have nc: "\<not> clean evs"
    using assms(2) by simp
  with c obtain err pre' where code: "fst (program e a w) = 1"
    and p: "evs = pre' @ [Stderr ([CHR 0x0A] @ ''ERROR: '' @ str_error err)]"
    and h: "clean pre' \<and> (\<forall>m. err \<noteq> RuntimeError m) \<or> stopped pre' (fs (snd (program e a w))) err"
    by blast
  have "\<not> clean pre'"
    using nc p by simp
  with h have "stopped pre' (fs (snd (program e a w))) err"
    by blast
  then obtain pre'' cmd res where
    q: "pre' = pre'' @ [Invoke cmd res (fs (snd (program e a w))), Stdout (stdout res),
                        Stderr (stderr res)]"
    and cl: "clean pre''" and rc: "returncode res \<noteq> 0"
    and err: "err = RuntimeError (''Command failed with code '' @ str_int (returncode res))"
    by (auto simp: stopped_iff)
  have "pre @ Invoke c r g # post =
        pre'' @ Invoke cmd res (fs (snd (program e a w))) #
          [Stdout (stdout res), Stderr (stderr res),
           Stderr ([CHR 0x0A] @ ''ERROR: '' @ str_error err)]"
    using e p q by simp
  from first_failed_unique [OF this] assms(2) cl
  have "pre = pre''" "Invoke c r g = Invoke cmd res (fs (snd (program e a w)))"
    "post = [Stdout (stdout res), Stderr (stderr res),
             Stderr ([CHR 0x0A] @ ''ERROR: '' @ str_error err)]"
    by simp_all
  then show ?thesis
    using code cl err by (simp add: str_error_def)
qed

lemma fail_run:
  "program fail_env (default_args [''board.kicad_pro'']) demo_world =
     (1, \<lparr>fs = [([''board.kicad_sch''], File), ([''board.kicad_pcb''], File),
                ([''3D_MODEL''], Dir), ([''PICTURES''], Dir), ([''DOCUMENTATION''], Dir),
                ([''PRODUCTION''], Dir), ([''PRODUCTION'', ''20260101_1200_board''], Dir)],
          log = [Stdout ''Project: board'', Stdout ''SCH:     board.kicad_sch'',
                 Stdout ''PCB:     board.kicad_pcb'', Stdout ''Root:    .'',
                 Stdout ''>> /usr/bin/kicad-cli pcb export step -o 3D_MODEL/board.step board.kicad_pcb'',
                 Invoke [''/usr/bin/kicad-cli'', ''pcb'', ''export'', ''step'', ''-o'',
                         ''3D_MODEL/board.step'', ''board.kicad_pcb'']
                   \<lparr>returncode = 2, stdout = ''partial output'', stderr = ''boom''\<rparr>
                   [([''board.kicad_sch''], File), ([''board.kicad_pcb''], File),
                    ([''3D_MODEL''], Dir), ([''PICTURES''], Dir), ([''DOCUMENTATION''], Dir),
                    ([''PRODUCTION''], Dir), ([''PRODUCTION'', ''20260101_1200_board''], Dir)],
                 Stdout ''partial output'', Stderr ''boom'',
                 Stderr ([CHR 0x0A] @ ''ERROR: Command failed with code 2'')]\<rparr>)"
  by (simp add: eval_defs run_defs fail_env_def demo_world_def str_int_def str_nat.simps
      digit_def)




text \<open>
  Claim C8, amended. The process runner first echoes the command line (\<^verbatim>\<open>>>\<close> and the
  arguments joined by spaces), then executes the command with captured output. If the exit
  status is zero it returns the captured standard output, stripped of surrounding white space,
  and prints nothing more. If and only if the exit status is non-zero it raises the
  command-failed error that carries the exit status, and before raising the runner itself
  prints the captured standard output and the captured standard error. Its callers print
  nothing of the captured output: in a run of the program a failing invocation is followed by
  exactly the runner's two prints and the line \<^verbatim>\<open>ERROR: Command failed with code <status>\<close> of
  the top-level handler, and the exit status is 1.
\<close>

theorem runner_outcome:
  "(case tool e cmd (fs w) of
      (res, f) \<Rightarrow>
        (returncode res = 0 \<longrightarrow>
           run e cmd w =
             (Inr (strip (stdout res)),
              w\<lparr>fs := f,
                log := log w @ [Stdout (''>> '' @ join_str '' '' cmd), Invoke cmd res f]\<rparr>)) \<and>
        (returncode res \<noteq> 0 \<longrightarrow>
           run e cmd w =
             (Inl (RuntimeError (''Command failed with code '' @ str_int (returncode res))),
              w\<lparr>fs := f,
                log := log w @ [Stdout (''>> '' @ join_str '' '' cmd), Invoke cmd res f,
                                Stdout (stdout res), Stderr (stderr res)]\<rparr>))) \<and>
   (log (snd (program e a w)) = log w @ pre @ Invoke c r g # post \<and> returncode r \<noteq> 0 \<longrightarrow>
      post = [Stdout (stdout r), Stderr (stderr r),
              Stderr ([CHR 0x0A] @ ''ERROR: Command failed with code '' @ str_int (returncode r))] \<and>
      fst (program e a w) = 1)"
  using program_failed_command [of e a w pre c r g post]
  by (simp add: run_eq split: prod.splits)

theorem runner_outcome_witness:
  "run fail_env [''kicad-cli'', ''--version''] \<lparr>fs = [], log = []\<rparr> =
     (Inl (RuntimeError ''Command failed with code 2''),
      \<lparr>fs = [],
       log = [Stdout ''>> kicad-cli --version'',
              Invoke [''kicad-cli'', ''--version'']
                \<lparr>returncode = 2, stdout = ''partial output'', stderr = ''boom''\<rparr> [],
              Stdout ''partial output'', Stderr ''boom'']\<rparr>) \<and>
   run demo_env [''kicad-cli'', ''--version''] \<lparr>fs = [], log = []\<rparr> =
     (Inr [],
      \<lparr>fs = [],
       log = [Stdout ''>> kicad-cli --version'',
              Invoke [''kicad-cli'', ''--version''] quiet []]\<rparr>) \<and>
   fst (program fail_env (default_args [''board.kicad_pro'']) demo_world) = 1"
proof -
  let ?pre = "[Stdout ''Project: board'', Stdout ''SCH:     board.kicad_sch'',
         Stdout ''PCB:     board.kicad_pcb'', Stdout ''Root:    .'',
         Stdout ''>> /usr/bin/kicad-cli pcb export step -o 3D_MODEL/board.step board.kicad_pcb'']"
  let ?c = "[''/usr/bin/kicad-cli'', ''pcb'', ''export'', ''step'', ''-o'',
             ''3D_MODEL/board.step'', ''board.kicad_pcb'']"
  let ?r = "\<lparr>returncode = 2, stdout = ''partial output'', stderr = ''boom''\<rparr>"
  let ?g = "[([''board.kicad_sch''], File), ([''board.kicad_pcb''], File),
           ([''3D_MODEL''], Dir), ([''PICTURES''], Dir), ([''DOCUMENTATION''], Dir),
           ([''PRODUCTION''], Dir), ([''PRODUCTION'', ''20260101_1200_board''], Dir)]"
  let ?post = "[Stdout ''partial output'', Stderr ''boom'',
         Stderr ([CHR 0x0A] @ ''ERROR: Command failed with code 2'')]"
  have l: "log (snd (program fail_env (default_args [''board.kicad_pro'']) demo_world)) =
        log demo_world @ ?pre @ Invoke ?c ?r ?g # ?post"
    unfolding fail_run by (simp add: demo_world_def)
  have r: "returncode ?r \<noteq> 0"
    by simp
  have 1: "fst (program fail_env (default_args [''board.kicad_pro'']) demo_world) = 1"
    using runner_outcome [where e = fail_env and a = "default_args [''board.kicad_pro'']"
        and w = demo_world and pre = ?pre and c = ?c and r = ?r and g = ?g and post = ?post]
      l r
    by blast
  show ?thesis
    using runner_outcome [of fail_env "[''kicad-cli'', ''--version'']" "\<lparr>fs = [], log = []\<rparr>"]
      runner_outcome [of demo_env "[''kicad-cli'', ''--version'']" "\<lparr>fs = [], log = []\<rparr>"]
      1
    by (simp add: fail_env_def demo_env_def join_str_def str_int_def str_nat.simps digit_def
        quiet_def strip_def is_space_def)
qed

section \<open>Files written by the export stages\<close>

lemma thn_assoc: "thn (thn m f) g = thn m (\<lambda>x. thn (f x) g)"
  by (auto simp: thn_def split: prod.splits sum.splits)

lemma thn_ret: "thn (ret x) f = f x"
  by (simp add: thn_def ret_def)

lemma stem_not_anchor: "c \<noteq> CHR ''/'' \<Longrightarrow> \<not> is_anchor (stem p @ c # cs)"
  by (auto simp: stem_def name_def is_anchor_def Let_def take_Cons'
      split: list.splits option.splits if_splits)

lemma name_join_stem:
  "c \<noteq> CHR ''/'' \<Longrightarrow> name (joinpath out (stem p @ c # cs)) = stem p @ c # cs"
  by (simp add: name_def joinpath_def stem_not_anchor)

lemma parent_join_stem: "c \<noteq> CHR ''/'' \<Longrightarrow> parent (joinpath out (stem p @ c # cs)) = out"
  by (simp add: parent_def name_join_stem) (simp add: joinpath_def)

lemma is_dir_store_File: "\<not> is_dir f p \<Longrightarrow> is_dir (store f p File) q = is_dir f q"
  by (auto simp: is_dir_def lookup_store)

lemma thn_run_writes:
  assumes "writes_file e cmd p" and "is_dir (fs w) (parent p)" and "\<not> is_dir (fs w) p"
  shows "thn (run e cmd) k w =
           k (strip (stdout (fst (tool e cmd (fs w)))))
             (w\<lparr>fs := store (fs w) p File,
                log := log w @ [Stdout (''>> '' @ join_str '' '' cmd),
                                Invoke cmd (fst (tool e cmd (fs w))) (store (fs w) p File)]\<rparr>)"
  using assms
  by (auto simp: writes_file_def thn_def run_eq split: prod.splits)

lemma export_pictures_writes:
  assumes d: "mkdir_parents (fs w) out = Inr f0"
    and j: "\<forall>(cmd, p)\<in>set (jobs_pictures kicad pcb out i). writes_file e cmd p \<and> \<not> is_dir f0 p"
  shows "\<exists>w'. export_pictures e kicad pcb out i w =
                 (Inr (map snd (jobs_pictures kicad pcb out i)), w') \<and>
               fs w' = foldl (\<lambda>f p. store f p File) f0 (map snd (jobs_pictures kicad pcb out i)) \<and>
               commands (log w') = commands (log w) @ map fst (jobs_pictures kicad pcb out i)"
proof -
  have e0: "ensure_dir out w = (Inr out, w\<lparr>fs := f0\<rparr>)"
    using d by (simp add: ensure_dir_def)
  have dir: "is_dir f0 out"
    using mkdir_parents_Inr [OF d] by simp
  show ?thesis
    unfolding export_pictures_def Let_def
    using j dir
    by (cases i;
        simp add: jobs_pictures_def thn_ok [where m = "ensure_dir out", OF e0]
          thn_run_writes [where p = "joinpath out (stem pcb @ ''_top.png'')"]
          thn_run_writes [where p = "joinpath out (stem pcb @ ''_bottom.png'')"]
          thn_run_writes [where p = "joinpath out (stem pcb @ ''_side.png'')"]
          thn_run_writes [where p = "joinpath out (stem pcb @ ''_iso.png'')"]
          thn_assoc thn_ret parent_join_stem is_dir_store_File;
        simp add: ret_def)
qed

lemma export_3d_writes:
  assumes d: "mkdir_parents (fs w) out = Inr f0"
    and j: "\<forall>(cmd, p)\<in>set (jobs_3d kicad pcb out g). writes_file e cmd p \<and> \<not> is_dir f0 p"
  shows "\<exists>w'. export_3d e kicad pcb out g w = (Inr (joinpath out (stem pcb @ ''.step'')), w') \<and>
               fs w' = foldl (\<lambda>f p. store f p File) f0 (map snd (jobs_3d kicad pcb out g)) \<and>
               commands (log w') = commands (log w) @ map fst (jobs_3d kicad pcb out g)"
proof -
  have e0: "ensure_dir out w = (Inr out, w\<lparr>fs := f0\<rparr>)"
    using d by (simp add: ensure_dir_def)
  have dir: "is_dir f0 out"
    using mkdir_parents_Inr [OF d] by simp
  show ?thesis
    unfolding export_3d_def Let_def
    using j dir
    by (cases g;
        simp add: jobs_3d_def thn_ok [where m = "ensure_dir out", OF e0]
          thn_run_writes [where p = "joinpath out (stem pcb @ ''.step'')"]
          thn_run_writes [where p = "joinpath out (stem pcb @ ''.glb'')"]
          thn_assoc thn_ret parent_join_stem is_dir_store_File;
        simp add: ret_def)
qed

lemma export_docs_writes:
  assumes d: "mkdir_parents (fs w) out = Inr f0"
    and j: "\<forall>(cmd, p)\<in>set (jobs_docs kicad sch pcb out c). writes_file e cmd p \<and> \<not> is_dir f0 p"
  shows "\<exists>w'. export_docs e kicad sch pcb out c w =
                 (Inr (joinpath out (stem sch @ ''_schematic.pdf''),
                       joinpath out (stem sch @ ''_erc.rpt''),
                       joinpath out (stem pcb @ ''_board_prints.pdf''),
                       if c then Some (joinpath out (stem pcb @ ''_drc.rpt'')) else None), w') \<and>
               fs w' = foldl (\<lambda>f p. store f p File) f0 (map snd (jobs_docs kicad sch pcb out c)) \<and>
               commands (log w') = commands (log w) @ map fst (jobs_docs kicad sch pcb out c)"
proof -
  have e0: "ensure_dir out w = (Inr out, w\<lparr>fs := f0\<rparr>)"
    using d by (simp add: ensure_dir_def)
  have dir: "is_dir f0 out"
    using mkdir_parents_Inr [OF d] by simp
  show ?thesis
    unfolding export_docs_def Let_def
    using j dir
    by (cases c;
        simp add: jobs_docs_def thn_ok [where m = "ensure_dir out", OF e0]
          thn_run_writes [where p = "joinpath out (stem sch @ ''_schematic.pdf'')"]
          thn_run_writes [where p = "joinpath out (stem sch @ ''_erc.rpt'')"]
          thn_run_writes [where p = "joinpath out (stem pcb @ ''_board_prints.pdf'')"]
          thn_run_writes [where p = "joinpath out (stem pcb @ ''_drc.rpt'')"]
          thn_assoc thn_ret parent_join_stem is_dir_store_File;
        simp add: ret_def)
qed

lemma lookup_written:
  "\<forall>p\<in>set ps. name p \<noteq> [] \<Longrightarrow>
     lookup (foldl (\<lambda>f p. store f p File) f ps) q =
       (if q \<in> set ps then Some File else lookup f q)"
  by (induction ps arbitrary: f) (auto simp: lookup_store)

lemma jobs_pictures_facts:
  "map snd (jobs_pictures kicad pcb out i) =
     [joinpath out (stem pcb @ ''_top.png''), joinpath out (stem pcb @ ''_bottom.png''),
      joinpath out (stem pcb @ ''_side.png'')] @
     (if i then [joinpath out (stem pcb @ ''_iso.png'')] else [])"
  "distinct (map snd (jobs_pictures kicad pcb out i))"
  "length (jobs_pictures kicad pcb out i) = (if i then 4 else 3)"
  "\<forall>(cmd, p)\<in>set (jobs_pictures kicad pcb out i).
     hd cmd = kicad \<and> out_target cmd = Some (str_path p) \<and> parent p = out"
  "\<forall>p\<in>set (map snd (jobs_pictures kicad pcb out i)). name p \<noteq> []"
  by (simp_all add: jobs_pictures_def out_target_def parent_join_stem name_join_stem)
     (simp_all add: joinpath_def)

lemma jobs_3d_facts:
  "map snd (jobs_3d kicad pcb out g) =
     joinpath out (stem pcb @ ''.step'') # (if g then [joinpath out (stem pcb @ ''.glb'')] else [])"
  "distinct (map snd (jobs_3d kicad pcb out g))"
  "length (jobs_3d kicad pcb out g) = (if g then 2 else 1)"
  "\<forall>(cmd, p)\<in>set (jobs_3d kicad pcb out g).
     hd cmd = kicad \<and> out_target cmd = Some (str_path p) \<and> parent p = out"
  "\<forall>p\<in>set (map snd (jobs_3d kicad pcb out g)). name p \<noteq> []"
  by (simp_all add: jobs_3d_def out_target_def parent_join_stem name_join_stem)
     (simp_all add: joinpath_def)

text \<open>
  Claim C4. The files are written by the external tool, so the statement is made for a tool
  that does what it is asked: each command line of the stage, run where the output directory
  exists, exits with status 0 and writes the file named after \<^verbatim>\<open>-o\<close>, and nothing else
  (\<open>writes_file\<close>). Let the output directory be creatable, \<open>f0\<close> being the file system once it
  is there, and let no output path be a directory. Then the picture export returns, and the
  file system it leaves differs from \<open>f0\<close> in exactly the regular files \<^verbatim>\<open><stem>_top.png\<close>,
  \<^verbatim>\<open><stem>_bottom.png\<close> and \<^verbatim>\<open><stem>_side.png\<close> of the output directory, three different
  files, when the isometric flag is off, and in these and \<^verbatim>\<open><stem>_iso.png\<close>, four different
  files, when it is on; it has run one command per file. Likewise the 3D export leaves
  exactly \<^verbatim>\<open><stem>.step\<close> when the GLB flag is off, and \<^verbatim>\<open><stem>.step\<close> and \<^verbatim>\<open><stem>.glb\<close>, two
  different files, when it is on.
\<close>

theorem export_output_counts:
  "(mkdir_parents (fs w) out = Inr f0 \<and>
    (\<forall>(cmd, p)\<in>set (jobs_pictures kicad pcb out i). writes_file e cmd p \<and> \<not> is_dir f0 p) \<longrightarrow>
      (\<exists>w'. export_pictures e kicad pcb out i w =
               (Inr (map snd (jobs_pictures kicad pcb out i)), w') \<and>
            (\<forall>q. lookup (fs w') q =
                   (if q \<in> set (map snd (jobs_pictures kicad pcb out i)) then Some File
                    else lookup f0 q)) \<and>
            is_dir (fs w') out \<and>
            commands (log w') = commands (log w) @ map fst (jobs_pictures kicad pcb out i))) \<and>
   map snd (jobs_pictures kicad pcb out i) =
     [joinpath out (stem pcb @ ''_top.png''), joinpath out (stem pcb @ ''_bottom.png''),
      joinpath out (stem pcb @ ''_side.png'')] @
     (if i then [joinpath out (stem pcb @ ''_iso.png'')] else []) \<and>
   distinct (map snd (jobs_pictures kicad pcb out i)) \<and>
   length (jobs_pictures kicad pcb out i) = (if i then 4 else 3) \<and>
   (\<forall>(cmd, p)\<in>set (jobs_pictures kicad pcb out i).
      hd cmd = kicad \<and> out_target cmd = Some (str_path p) \<and> parent p = out) \<and>
   (mkdir_parents (fs w) out = Inr f0 \<and>
    (\<forall>(cmd, p)\<in>set (jobs_3d kicad pcb out g). writes_file e cmd p \<and> \<not> is_dir f0 p) \<longrightarrow>
      (\<exists>w'. export_3d e kicad pcb out g w = (Inr (joinpath out (stem pcb @ ''.step'')), w') \<and>
            (\<forall>q. lookup (fs w') q =
                   (if q \<in> set (map snd (jobs_3d kicad pcb out g)) then Some File
                    else lookup f0 q)) \<and>
            is_dir (fs w') out \<and>
            commands (log w') = commands (log w) @ map fst (jobs_3d kicad pcb out g))) \<and>
   map snd (jobs_3d kicad pcb out g) =
     joinpath out (stem pcb @ ''.step'') #
     (if g then [joinpath out (stem pcb @ ''.glb'')] else []) \<and>
   distinct (map snd (jobs_3d kicad pcb out g)) \<and>
   length (jobs_3d kicad pcb out g) = (if g then 2 else 1) \<and>
   (\<forall>(cmd, p)\<in>set (jobs_3d kicad pcb out g).
      hd cmd = kicad \<and> out_target cmd = Some (str_path p) \<and> parent p = out)"
proof (intro conjI impI)
  assume a: "mkdir_parents (fs w) out = Inr f0 \<and>
    (\<forall>(cmd, p)\<in>set (jobs_pictures kicad pcb out i). writes_file e cmd p \<and> \<not> is_dir f0 p)"
  then have d: "mkdir_parents (fs w) out = Inr f0"
    and j: "\<forall>(cmd, p)\<in>set (jobs_pictures kicad pcb out i). writes_file e cmd p \<and> \<not> is_dir f0 p"
    by simp_all
  from export_pictures_writes [OF d j] obtain w' where
    r: "export_pictures e kicad pcb out i w = (Inr (map snd (jobs_pictures kicad pcb out i)), w')"
    and f: "fs w' = foldl (\<lambda>f p. store f p File) f0 (map snd (jobs_pictures kicad pcb out i))"
    and c: "commands (log w') = commands (log w) @ map fst (jobs_pictures kicad pcb out i)"
    by blast
  have n: "\<forall>p\<in>set (map snd (jobs_pictures kicad pcb out i)). name p \<noteq> []"
    by (rule jobs_pictures_facts(5))
  have l: "lookup (fs w') q =
             (if q \<in> set (map snd (jobs_pictures kicad pcb out i)) then Some File
              else lookup f0 q)" for q
    unfolding f by (rule lookup_written [OF n])
  have "out \<notin> set (map snd (jobs_pictures kicad pcb out i))"
    by (auto simp: jobs_pictures_def joinpath_def)
  moreover have "is_dir f0 out"
    using mkdir_parents_Inr [OF d] by simp
  ultimately have "is_dir (fs w') out"
    using l [of out] by (simp add: is_dir_def)
  with r l c show "\<exists>w'. export_pictures e kicad pcb out i w =
               (Inr (map snd (jobs_pictures kicad pcb out i)), w') \<and>
            (\<forall>q. lookup (fs w') q =
                   (if q \<in> set (map snd (jobs_pictures kicad pcb out i)) then Some File
                    else lookup f0 q)) \<and>
            is_dir (fs w') out \<and>
            commands (log w') = commands (log w) @ map fst (jobs_pictures kicad pcb out i)"
    by blast
next
  assume a: "mkdir_parents (fs w) out = Inr f0 \<and>
    (\<forall>(cmd, p)\<in>set (jobs_3d kicad pcb out g). writes_file e cmd p \<and> \<not> is_dir f0 p)"
  then have d: "mkdir_parents (fs w) out = Inr f0"
    and j: "\<forall>(cmd, p)\<in>set (jobs_3d kicad pcb out g). writes_file e cmd p \<and> \<not> is_dir f0 p"
    by simp_all
  from export_3d_writes [OF d j] obtain w' where
    r: "export_3d e kicad pcb out g w = (Inr (joinpath out (stem pcb @ ''.step'')), w')"
    and f: "fs w' = foldl (\<lambda>f p. store f p File) f0 (map snd (jobs_3d kicad pcb out g))"
    and c: "commands (log w') = commands (log w) @ map fst (jobs_3d kicad pcb out g)"
    by blast
  have n: "\<forall>p\<in>set (map snd (jobs_3d kicad pcb out g)). name p \<noteq> []"
    by (rule jobs_3d_facts(5))
  have l: "lookup (fs w') q =
             (if q \<in> set (map snd (jobs_3d kicad pcb out g)) then Some File
              else lookup f0 q)" for q
    unfolding f by (rule lookup_written [OF n])
  have "out \<notin> set (map snd (jobs_3d kicad pcb out g))"
    by (auto simp: jobs_3d_def joinpath_def)
  moreover have "is_dir f0 out"
    using mkdir_parents_Inr [OF d] by simp
  ultimately have "is_dir (fs w') out"
    using l [of out] by (simp add: is_dir_def)
  with r l c show "\<exists>w'. export_3d e kicad pcb out g w =
               (Inr (joinpath out (stem pcb @ ''.step'')), w') \<and>
            (\<forall>q. lookup (fs w') q =
                   (if q \<in> set (map snd (jobs_3d kicad pcb out g)) then Some File
                    else lookup f0 q)) \<and>
            is_dir (fs w') out \<and>
            commands (log w') = commands (log w) @ map fst (jobs_3d kicad pcb out g)"
    by blast
qed (rule jobs_pictures_facts(1-4) jobs_3d_facts(1-4))+

lemmas writer_defs = writes_file_def writer_env_def out_target_def path_of_def quiet_def
  joinpath_def stem_def name_def is_anchor_def rfind_def str_path_def join_str_def parent_def
  is_dir_def lookup_def

theorem export_output_counts_witness:
  "fst (export_pictures writer_env ''kicad-cli'' [''board.kicad_pcb''] [''PICTURES''] True
          demo_world) =
     Inr [[''PICTURES'', ''board_top.png''], [''PICTURES'', ''board_bottom.png''],
          [''PICTURES'', ''board_side.png''], [''PICTURES'', ''board_iso.png'']] \<and>
   map (lookup (fs (snd (export_pictures writer_env ''kicad-cli'' [''board.kicad_pcb'']
                           [''PICTURES''] True demo_world))))
     [[''PICTURES'', ''board_top.png''], [''PICTURES'', ''board_bottom.png''],
      [''PICTURES'', ''board_side.png''], [''PICTURES'', ''board_iso.png''],
      [''PICTURES'', ''board.png'']] =
     [Some File, Some File, Some File, Some File, None] \<and>
   fst (export_3d writer_env ''kicad-cli'' [''board.kicad_pcb''] [''3D_MODEL''] False demo_world) =
     Inr [''3D_MODEL'', ''board.step''] \<and>
   map (lookup (fs (snd (export_3d writer_env ''kicad-cli'' [''board.kicad_pcb''] [''3D_MODEL'']
                           False demo_world))))
     [[''3D_MODEL'', ''board.step''], [''3D_MODEL'', ''board.glb'']] =
     [Some File, None]"
proof -
  let ?pcb = "[''board.kicad_pcb'']"
  let ?f1 = "fs demo_world @ [([''PICTURES''], Dir)]"
  let ?f2 = "fs demo_world @ [([''3D_MODEL''], Dir)]"
  have d1: "mkdir_parents (fs demo_world) [''PICTURES''] = Inr ?f1"
    by (simp add: run_defs eval_defs demo_world_def)
  have d2: "mkdir_parents (fs demo_world) [''3D_MODEL''] = Inr ?f2"
    by (simp add: run_defs eval_defs demo_world_def)
  have j1: "\<forall>(cmd, p)\<in>set (jobs_pictures ''kicad-cli'' ?pcb [''PICTURES''] True).
              writes_file writer_env cmd p \<and> \<not> is_dir ?f1 p"
    by (simp add: jobs_pictures_def writer_defs demo_world_def)
  have j2: "\<forall>(cmd, p)\<in>set (jobs_3d ''kicad-cli'' ?pcb [''3D_MODEL''] False).
              writes_file writer_env cmd p \<and> \<not> is_dir ?f2 p"
    by (simp add: jobs_3d_def writer_defs demo_world_def)
  have p1: "map snd (jobs_pictures ''kicad-cli'' ?pcb [''PICTURES''] True) =
              [[''PICTURES'', ''board_top.png''], [''PICTURES'', ''board_bottom.png''],
               [''PICTURES'', ''board_side.png''], [''PICTURES'', ''board_iso.png'']]"
    by (simp add: jobs_pictures_def writer_defs)
  have p2: "map snd (jobs_3d ''kicad-cli'' ?pcb [''3D_MODEL''] False) = [[''3D_MODEL'', ''board.step'']]"
    by (simp add: jobs_3d_def writer_defs)
  have s2: "joinpath [''3D_MODEL''] (stem ?pcb @ ''.step'') = [''3D_MODEL'', ''board.step'']"
    by (simp add: writer_defs)
  have n1: "lookup ?f1 [''PICTURES'', ''board.png''] = None"
    by (simp add: lookup_def name_def is_anchor_def demo_world_def)
  have n2: "lookup ?f2 [''3D_MODEL'', ''board.glb''] = None"
    by (simp add: lookup_def name_def is_anchor_def demo_world_def)
  from export_output_counts
         [where w = demo_world and out = "[''PICTURES'']" and ?f0.0 = ?f1 and kicad = "''kicad-cli''"
            and pcb = ?pcb and i = True and e = writer_env]
       d1 j1
  obtain w1 where
    r1: "export_pictures writer_env ''kicad-cli'' ?pcb [''PICTURES''] True demo_world =
           (Inr (map snd (jobs_pictures ''kicad-cli'' ?pcb [''PICTURES''] True)), w1)"
    and l1: "\<forall>q. lookup (fs w1) q =
                (if q \<in> set (map snd (jobs_pictures ''kicad-cli'' ?pcb [''PICTURES''] True))
                 then Some File else lookup ?f1 q)"
    by blast
  from export_output_counts
         [where w = demo_world and out = "[''3D_MODEL'']" and ?f0.0 = ?f2 and kicad = "''kicad-cli''"
            and pcb = ?pcb and g = False and e = writer_env]
       d2 j2
  obtain w2 where
    r2: "export_3d writer_env ''kicad-cli'' ?pcb [''3D_MODEL''] False demo_world =
           (Inr (joinpath [''3D_MODEL''] (stem ?pcb @ ''.step'')), w2)"
    and l2: "\<forall>q. lookup (fs w2) q =
                (if q \<in> set (map snd (jobs_3d ''kicad-cli'' ?pcb [''3D_MODEL''] False))
                 then Some File else lookup ?f2 q)"
    by blast
  show ?thesis
    using l1 l2 n1 n2 unfolding r1 r2 p1 p2 s2 by simp
qed

end
